theory Spec2Isabelle
  imports Main "HOL-Library.Word" "HOL-Library.AList"
begin

section \<open>The rosbag2 bag writer\<close>

text \<open>
  The repository holds three iterations of the class \<open>rosbag2::Writer\<close>. Each is
  embedded separately and its definitions carry a suffix naming the file:
  \<^item> \<open>_wr\<close>: \<^verbatim>\<open>src/rosbag2/src/rosbag2/writer.cpp\<close>;
  \<^item> \<open>_co\<close>: the writer that follows the compression options in
    \<^verbatim>\<open>src/rosbag2/src/rosbag2/compression_options.cpp\<close>;
  \<^item> \<open>_p0\<close>: \<^verbatim>\<open>src/unnamed/part_000\<close>.
  The functions of \<^verbatim>\<open>compression_options.cpp\<close> proper keep their names.
\<close>

subsection \<open>Compression options\<close>

text \<open>\<^verbatim>\<open>enum class CompressionMode\<close>, with the three enumerators the source names.\<close>

datatype compression_mode = NONE | FILE | MESSAGE

definition COMPRESSION_MODE_NONE_STR :: string where
  "COMPRESSION_MODE_NONE_STR = ''NONE''"

definition COMPRESSION_MODE_FILE_STR :: string where
  "COMPRESSION_MODE_FILE_STR = ''FILE''"

definition COMPRESSION_MODE_MESSAGE_STR :: string where
  "COMPRESSION_MODE_MESSAGE_STR = ''MESSAGE''"

text \<open>
  The text that \<^verbatim>\<open>ROSBAG2_LOG_ERROR_STREAM\<close> receives for an unsupported mode string;
  \<open>CHR 0x22\<close> is the double quote.
\<close>

definition not_supported_msg :: "string \<Rightarrow> string" where
  "not_supported_msg compression_mode =
     ''CompressionMode: '' @ [CHR 0x22] @ compression_mode @ [CHR 0x22] @ '' is not supported!''"

text \<open>
  \<^verbatim>\<open>compression_mode_from_string\<close>. The function returns normally on every path; the
  second component is the list of error lines it logs.
\<close>

definition compression_mode_from_string :: "string \<Rightarrow> compression_mode \<times> string list" where
  "compression_mode_from_string compression_mode =
     (if compression_mode = [] \<or> compression_mode = COMPRESSION_MODE_NONE_STR then (NONE, [])
      else if compression_mode = COMPRESSION_MODE_FILE_STR then (FILE, [])
      else if compression_mode = COMPRESSION_MODE_MESSAGE_STR then (MESSAGE, [])
      else (NONE, [not_supported_msg compression_mode]))"

text \<open>
  \<^verbatim>\<open>compression_mode_to_string\<close>. The \<^verbatim>\<open>default\<close> branch of the switch is reached by no
  enumerator.
\<close>

fun compression_mode_to_string :: "compression_mode \<Rightarrow> string" where
  "compression_mode_to_string NONE = COMPRESSION_MODE_NONE_STR"
| "compression_mode_to_string FILE = COMPRESSION_MODE_FILE_STR"
| "compression_mode_to_string MESSAGE = COMPRESSION_MODE_MESSAGE_STR"

subsection \<open>Data model\<close>

text \<open>
  Modelled from the spec: the structs \<^verbatim>\<open>TopicMetadata\<close>, \<^verbatim>\<open>TopicInformation\<close>,
  \<^verbatim>\<open>SerializedBagMessage\<close> and \<^verbatim>\<open>BagMetadata\<close> and the option structs are declared in
  headers that are not part of the sources at hand. The records below hold the fields
  that the writers read and write (section 3 of the spec names the same attributes).
  Counters and sizes are \<^verbatim>\<open>size_t\<close>/\<^verbatim>\<open>uint64_t\<close> and wrap at \<open>2 ^ 64\<close>. Time stamps and
  durations are signed 64-bit nanosecond counts; they are held as integers, and each sum
  or difference the writers compute is brought back into the 64-bit range by
  \<open>wrap_int64\<close>.
\<close>

record topic_metadata =
  name :: string
  type :: string
  serialization_format :: string

record topic_information =
  topic_metadata :: topic_metadata
  message_count :: "64 word"

record serialized_bag_message =
  serialized_data :: "8 word list"
  time_stamp :: int
  topic_name :: string

record bag_metadata =
  storage_identifier :: string
  relative_file_paths :: "string list"
  duration :: int
  starting_time :: int
  bag_message_count :: "64 word"
  bag_size :: "64 word"
  topics_with_message_count :: "topic_information list"
  compression_identifier :: string
  compression_format :: string
  compression_mode_name :: string

record storage_options =
  uri :: string
  storage_id :: string
  max_bagfile_size :: "64 word"

record converter_options =
  input_serialization_format :: string
  output_serialization_format :: string

record compression_options =
  mode :: compression_mode
  format :: string

text \<open>A value-initialised \<^verbatim>\<open>TopicInformation{}\<close> and \<^verbatim>\<open>BagMetadata{}\<close>.\<close>

definition TopicInformation0 :: topic_information where
  "TopicInformation0 =
     \<lparr>topic_metadata = \<lparr>name = [], type = [], serialization_format = []\<rparr>,
      message_count = 0\<rparr>"

definition BagMetadata0 :: bag_metadata where
  "BagMetadata0 =
     \<lparr>storage_identifier = [], relative_file_paths = [], duration = 0, starting_time = 0,
      bag_message_count = 0, bag_size = 0, topics_with_message_count = [],
      compression_identifier = [], compression_format = [], compression_mode_name = []\<rparr>"

definition wrap_int64 :: "int \<Rightarrow> int" where
  "wrap_int64 x = (x + 2 ^ 63) mod 2 ^ 64 - 2 ^ 63"

definition INT64_MAX :: int where
  "INT64_MAX = 2 ^ 63 - 1"

definition INT64_MIN :: int where
  "INT64_MIN = - (2 ^ 63)"

subsection \<open>Errors\<close>

text \<open>
  Every \<^verbatim>\<open>throw\<close> of the writers, under the names of the spec's taxonomy:
  \<^item> \<open>SessionNotOpenError\<close>: \<^verbatim>\<open>runtime_error("Bag is not open. ...")\<close>;
  \<^item> \<open>StorageInitError\<close>: \<^verbatim>\<open>runtime_error("No storage could be initialized. Abort")\<close>
    and \<^verbatim>\<open>"Failed to rollover bagfile to new file ..."\<close>;
  \<^item> \<open>UnknownTopicError\<close>: \<^verbatim>\<open>out_of_range\<close> thrown by \<^verbatim>\<open>unordered_map::at\<close>, and
    \<^verbatim>\<open>runtime_error("Failed to remove the non-existing topic ...")\<close>;
  \<^item> \<open>TopicInsertError\<close>: \<^verbatim>\<open>runtime_error("Failed to insert topic ...")\<close>;
  \<^item> \<open>CompressionError\<close>: whatever the compressor throws;
  \<^item> \<open>NullStorage\<close>: a call through \<^verbatim>\<open>storage_\<close> while it is \<^verbatim>\<open>nullptr\<close>.
  An operation that throws keeps the mutations it made before the throw, so a result
  carries the state on both sides: \<open>Inl (error, state)\<close> or \<open>Inr state\<close>.
\<close>

datatype error =
    SessionNotOpenError
  | StorageInitError
  | UnknownTopicError
  | TopicInsertError
  | CompressionError
  | NullStorage

type_synonym 'w result = "(error \<times> 'w) + 'w"

subsection \<open>Collaborators\<close>

text \<open>
  The handle that \<^verbatim>\<open>open_read_write\<close> returns: the arguments it was opened with.
\<close>

record storage_handle =
  opened_uri :: string
  opened_id :: string

text \<open>
  The calls a writer makes on its collaborators (storage factory and handle, converter,
  compressor, file system, metadata I/O), in the order it makes them.
\<close>

datatype call =
    OpenReadWrite string string
  | CreateTopic topic_metadata
  | RemoveTopic topic_metadata
  | StorageWrite serialized_bag_message
  | GetBagfileSize
  | GetCurrentBagfileSize
  | GetMetadata
  | SplitDatabase
  | AddTopic string string
  | CompressUri string
  | RemoveFile string
  | WriteMetadata string bag_metadata

text \<open>The result of \<^verbatim>\<open>Compressor::compress_uri\<close> in \<^verbatim>\<open>writer.cpp\<close>.\<close>

record compression_state =
  compression_success :: bool
  compressed_uri :: string

text \<open>
  What the collaborators answer. None of them is part of the sources at hand, so each
  answer is a parameter; an answer that depends on what happened before takes the calls
  made so far. \<open>compress_uri\<close> either returns the compressed path or throws
  (section 4.4 of the spec). The two \<open>NO_SPLIT\<close> constants and
  \<open>CompressionModeToStringMap\<close> are declared elsewhere. \<open>topic_predicate\<close> is the call
  operator that \<^verbatim>\<open>std::find_if\<close> applies when \<^verbatim>\<open>topic_already_exists\<close> passes it a
  \<^verbatim>\<open>TopicInformation\<close> as predicate.
\<close>

record env =
  open_read_write :: "string \<Rightarrow> string \<Rightarrow> bool"
  get_relative_path :: "storage_handle \<Rightarrow> string"
  get_storage_identifier :: "storage_handle \<Rightarrow> string"
  get_bagfile_size :: "call list \<Rightarrow> 64 word"
  get_current_bagfile_size :: "call list \<Rightarrow> 64 word"
  get_metadata :: "call list \<Rightarrow> bag_metadata"
  get_current_uri :: "call list \<Rightarrow> string"
  convert :: "serialized_bag_message \<Rightarrow> serialized_bag_message"
  compress_uri :: "string \<Rightarrow> error + string"
  compress_uri_state :: "string \<Rightarrow> compression_state"
  compress_bag_message_data :: "serialized_bag_message \<Rightarrow> serialized_bag_message"
  get_compression_identifier :: string
  get_folder_name :: "string \<Rightarrow> string"
  concat_path :: "string list \<Rightarrow> string"
  get_file_size :: "string \<Rightarrow> 64 word"
  calculate_directory_size :: "string \<Rightarrow> 64 word"
  MAX_BAGFILE_SIZE_NO_SPLIT :: "64 word"
  MAX_BAGFILE_SIZE_BYTES_NO_SPLIT :: "64 word"
  CompressionModeToStringMap :: "compression_mode \<Rightarrow> string"
  get_identifier :: "storage_handle \<Rightarrow> string"
  topic_predicate :: "topic_information \<Rightarrow> topic_information \<Rightarrow> bool"

subsection \<open>\<^verbatim>\<open>std::unordered_map\<close> as an association list\<close>

text \<open>
  The topic registries are \<^verbatim>\<open>std::unordered_map<std::string, TopicInformation>\<close>. The
  model is an association list with the operations the writers use. The order of
  iteration, which C++ leaves open, is the order of insertion here.
\<close>

type_synonym topic_map = "(string \<times> topic_information) list"

text \<open>\<^verbatim>\<open>insert\<close>: no effect when the key is present; the flag is \<^verbatim>\<open>.second\<close>.\<close>

definition umap_insert :: "string \<times> topic_information \<Rightarrow> topic_map \<Rightarrow> topic_map \<times> bool" where
  "umap_insert kv m = (if map_of m (fst kv) = None then (m @ [kv], True) else (m, False))"

text \<open>\<^verbatim>\<open>erase(key)\<close>: returns the number of elements removed.\<close>

definition umap_erase :: "string \<Rightarrow> topic_map \<Rightarrow> topic_map \<times> nat" where
  "umap_erase k m = (AList.delete k m, length (filter (\<lambda>kv. fst kv = k) m))"

text \<open>\<^verbatim>\<open>operator[]\<close>: inserts a value-initialised element when the key is absent.\<close>

definition umap_index :: "string \<Rightarrow> topic_map \<Rightarrow> topic_map" where
  "umap_index k m = (if map_of m k = None then m @ [(k, TopicInformation0)] else m)"

text \<open>\<^verbatim>\<open>++m.at(k).message_count\<close>, once the element is known to be there.\<close>

definition increment_count :: "string \<Rightarrow> topic_map \<Rightarrow> topic_map" where
  "increment_count k m =
     AList.map_entry k (\<lambda>info. info\<lparr>message_count := message_count info + 1\<rparr>) m"

subsection \<open>File names\<close>

function string_of_nat :: "nat \<Rightarrow> string" where
  "string_of_nat n =
     (if n < 10 then [''0123456789'' ! n]
      else string_of_nat (n div 10) @ [''0123456789'' ! (n mod 10)])"
  by pat_completeness auto
termination
  by (relation "measure id") auto

text \<open>\<^verbatim>\<open>format_storage_uri\<close> of \<^verbatim>\<open>part_000\<close>.\<close>

definition format_storage_uri :: "env \<Rightarrow> string \<Rightarrow> nat \<Rightarrow> string" where
  "format_storage_uri e base_folder storage_count =
     (let storage_file_name = get_folder_name e base_folder;
          storage_file_name =
            (if storage_count > 0 then storage_file_name @ ''_'' @ string_of_nat storage_count
             else storage_file_name)
      in concat_path e [base_folder, storage_file_name])"

subsection \<open>The writer of \<^verbatim>\<open>part_000\<close>\<close>

record writer_p0 =
  storage_p0 :: "storage_handle option"
  converter_p0 :: bool
  max_bagfile_size_p0 :: "64 word"
  base_folder_p0 :: string
  topics_names_to_info_p0 :: topic_map
  metadata_p0 :: bag_metadata
  compression_options_p0 :: compression_options
  calls_p0 :: "call list"

definition log_p0 :: "call list \<Rightarrow> writer_p0 \<Rightarrow> writer_p0" where
  "log_p0 cs w = w\<lparr>calls_p0 := calls_p0 w @ cs\<rparr>"

definition push_path_p0 :: "string \<Rightarrow> writer_p0 \<Rightarrow> writer_p0" where
  "push_path_p0 path w =
     w\<lparr>metadata_p0 := (metadata_p0 w)
          \<lparr>relative_file_paths := relative_file_paths (metadata_p0 w) @ [path]\<rparr>\<rparr>"

text \<open>
  The constructor. \<^verbatim>\<open>compression_options_\<close> is not in the initialiser list; its first
  value is the parameter \<open>co\<close>.
\<close>

definition Writer_p0 :: "env \<Rightarrow> compression_options \<Rightarrow> writer_p0" where
  "Writer_p0 e co =
     \<lparr>storage_p0 = None, converter_p0 = False,
      max_bagfile_size_p0 = MAX_BAGFILE_SIZE_BYTES_NO_SPLIT e, base_folder_p0 = [],
      topics_names_to_info_p0 = [], metadata_p0 = BagMetadata0,
      compression_options_p0 = co, calls_p0 = []\<rparr>"

text \<open>\<^verbatim>\<open>init_metadata\<close>; the caller has checked \<^verbatim>\<open>storage_\<close>.\<close>

definition init_metadata_p0 :: "env \<Rightarrow> storage_handle \<Rightarrow> writer_p0 \<Rightarrow> writer_p0" where
  "init_metadata_p0 e h w =
     w\<lparr>metadata_p0 := BagMetadata0
          \<lparr>storage_identifier := get_storage_identifier e h, starting_time := INT64_MAX\<rparr>\<rparr>"

text \<open>\<^verbatim>\<open>open\<close> with two arguments, then the overload that sets the compression options.\<close>

definition open2_p0 ::
  "env \<Rightarrow> storage_options \<Rightarrow> converter_options \<Rightarrow> writer_p0 \<Rightarrow> writer_p0 result" where
  "open2_p0 e so cv w =
     (let w = w\<lparr>max_bagfile_size_p0 := max_bagfile_size so, base_folder_p0 := uri so\<rparr>;
          w = (if output_serialization_format cv \<noteq> input_serialization_format cv
               then w\<lparr>converter_p0 := True\<rparr> else w);
          storage_uri = format_storage_uri e (base_folder_p0 w) 0;
          w = log_p0 [OpenReadWrite storage_uri (storage_id so)] w
      in if open_read_write e storage_uri (storage_id so)
         then (let h = \<lparr>opened_uri = storage_uri, opened_id = storage_id so\<rparr>
               in Inr (init_metadata_p0 e h (w\<lparr>storage_p0 := Some h\<rparr>)))
         else Inl (StorageInitError, w\<lparr>storage_p0 := None\<rparr>))"

definition open_p0 ::
  "env \<Rightarrow> storage_options \<Rightarrow> converter_options \<Rightarrow> compression_options \<Rightarrow> writer_p0
     \<Rightarrow> writer_p0 result" where
  "open_p0 e so cv co w = open2_p0 e so cv (w\<lparr>compression_options_p0 := co\<rparr>)"

text \<open>\<^verbatim>\<open>create_topic\<close>.\<close>

definition create_topic_p0 :: "env \<Rightarrow> topic_metadata \<Rightarrow> writer_p0 \<Rightarrow> writer_p0 result" where
  "create_topic_p0 e topic_with_type w =
     (if storage_p0 w = None then Inl (SessionNotOpenError, w)
      else
        let w = (if converter_p0 w
                 then log_p0 [AddTopic (name topic_with_type) (type topic_with_type)] w
                 else w)
        in if map_of (topics_names_to_info_p0 w) (name topic_with_type) = None
           then
             (let info = TopicInformation0\<lparr>topic_metadata := topic_with_type\<rparr>;
                  insert_res = umap_insert (name topic_with_type, info) (topics_names_to_info_p0 w);
                  w = w\<lparr>topics_names_to_info_p0 := fst insert_res\<rparr>
              in if \<not> snd insert_res then Inl (TopicInsertError, w)
                 else Inr (log_p0 [CreateTopic topic_with_type] w))
           else Inr w)"

text \<open>\<^verbatim>\<open>remove_topic\<close>.\<close>

definition remove_topic_p0 :: "env \<Rightarrow> topic_metadata \<Rightarrow> writer_p0 \<Rightarrow> writer_p0 result" where
  "remove_topic_p0 e topic_with_type w =
     (if storage_p0 w = None then Inl (SessionNotOpenError, w)
      else
        let erase_res = umap_erase (name topic_with_type) (topics_names_to_info_p0 w);
            w = w\<lparr>topics_names_to_info_p0 := fst erase_res\<rparr>
        in if snd erase_res > 0 then Inr (log_p0 [RemoveTopic topic_with_type] w)
           else Inl (UnknownTopicError, w))"

text \<open>
  \<^verbatim>\<open>compress_file\<close>. When \<^verbatim>\<open>compress_uri\<close> throws, nothing catches it: the path is not
  pushed and the file is not removed.
\<close>

definition compress_file_p0 :: "env \<Rightarrow> string \<Rightarrow> writer_p0 \<Rightarrow> writer_p0 result" where
  "compress_file_p0 e uri_to_compress w =
     (let w = log_p0 [CompressUri uri_to_compress] w
      in case compress_uri e uri_to_compress of
           Inl err \<Rightarrow> Inl (err, w)
         | Inr compressed \<Rightarrow>
             Inr (log_p0 [RemoveFile uri_to_compress] (push_path_p0 compressed w)))"

text \<open>\<^verbatim>\<open>split_bagfile\<close>.\<close>

definition split_bagfile_p0 :: "env \<Rightarrow> writer_p0 \<Rightarrow> writer_p0 result" where
  "split_bagfile_p0 e w =
     (case storage_p0 w of
        None \<Rightarrow> Inl (NullStorage, w)
      | Some h \<Rightarrow>
          let current_uri = get_relative_path e h;
              storage_uri_rollover =
                format_storage_uri e (base_folder_p0 w)
                  (length (relative_file_paths (metadata_p0 w)));
              sid = storage_identifier (metadata_p0 w);
              w = log_p0 [OpenReadWrite storage_uri_rollover sid] w
          in if \<not> open_read_write e storage_uri_rollover sid
             then Inl (StorageInitError, w\<lparr>storage_p0 := None\<rparr>)
             else
               let w = w\<lparr>storage_p0 :=
                          Some \<lparr>opened_uri = storage_uri_rollover, opened_id = sid\<rparr>\<rparr>;
                   w = log_p0
                         (map (\<lambda>topic. CreateTopic (topic_metadata (snd topic)))
                            (topics_names_to_info_p0 w)) w
               in if mode (compression_options_p0 w) = FILE
                  then compress_file_p0 e current_uri w
                  else Inr (push_path_p0 current_uri w))"

text \<open>
  \<^verbatim>\<open>should_split_bagfile\<close>: the configured \<^verbatim>\<open>max_bagfile_size_\<close> is not read; the bound
  is the literal \<^verbatim>\<open>1024 * 100\<close>. The caller has checked \<^verbatim>\<open>storage_\<close>.
\<close>

definition should_split_bagfile_p0 :: "env \<Rightarrow> writer_p0 \<Rightarrow> bool" where
  "should_split_bagfile_p0 e w = (get_bagfile_size e (calls_p0 w) > 1024 * 100)"

text \<open>\<^verbatim>\<open>write\<close>.\<close>

definition write_p0 :: "env \<Rightarrow> serialized_bag_message \<Rightarrow> writer_p0 \<Rightarrow> writer_p0 result" where
  "write_p0 e message w =
     (if storage_p0 w = None then Inl (SessionNotOpenError, w)
      else if map_of (topics_names_to_info_p0 w) (topic_name message) = None
      then Inl (UnknownTopicError, w)
      else
        let w = w\<lparr>topics_names_to_info_p0 :=
                   increment_count (topic_name message) (topics_names_to_info_p0 w)\<rparr>;
            do_split = should_split_bagfile_p0 e w;
            w = log_p0 [GetBagfileSize] w
        in case (if do_split then split_bagfile_p0 e w else Inr w) of
             Inl err \<Rightarrow> Inl err
           | Inr w \<Rightarrow>
               let message_timestamp = time_stamp message;
                   md = metadata_p0 w;
                   md = md\<lparr>starting_time := min (starting_time md) message_timestamp\<rparr>;
                   md = md\<lparr>duration :=
                           max (duration md)
                             (wrap_int64 (message_timestamp - starting_time md))\<rparr>;
                   w = w\<lparr>metadata_p0 := md\<rparr>;
                   converted_message = (if converter_p0 w then convert e message else message)
               in if mode (compression_options_p0 w) = MESSAGE
                  then Inr (log_p0 [StorageWrite (compress_bag_message_data e converted_message)] w)
                  else Inr (log_p0 [StorageWrite converted_message] w))"

text \<open>\<^verbatim>\<open>finalize_metadata\<close>, with its two loops.\<close>

fun sum_file_sizes :: "env \<Rightarrow> string list \<Rightarrow> 64 word \<Rightarrow> 64 word" where
  "sum_file_sizes e [] acc = acc"
| "sum_file_sizes e (path # paths) acc = sum_file_sizes e paths (acc + get_file_size e path)"

fun collect_topics :: "topic_map \<Rightarrow> bag_metadata \<Rightarrow> bag_metadata" where
  "collect_topics [] md = md"
| "collect_topics (topic # topics) md =
     collect_topics topics
       (md\<lparr>topics_with_message_count := topics_with_message_count md @ [snd topic],
           bag_message_count := bag_message_count md + message_count (snd topic)\<rparr>)"

definition finalize_metadata_p0 :: "env \<Rightarrow> writer_p0 \<Rightarrow> writer_p0" where
  "finalize_metadata_p0 e w =
     (let md = metadata_p0 w;
          md = md\<lparr>bag_size := 0\<rparr>;
          md = md\<lparr>bag_size := sum_file_sizes e (relative_file_paths md) (bag_size md)\<rparr>;
          md = md\<lparr>topics_with_message_count := []\<rparr>;
          md = md\<lparr>bag_message_count := 0\<rparr>;
          md = collect_topics (topics_names_to_info_p0 w) md;
          md = md\<lparr>compression_format := get_compression_identifier e\<rparr>;
          md = md\<lparr>compression_mode_name :=
                  CompressionModeToStringMap e (mode (compression_options_p0 w))\<rparr>
      in w\<lparr>metadata_p0 := md\<rparr>)"

text \<open>
  The destructor, where the session is closed. An exception that leaves it ends the
  process, so the metadata are not written in that case.
\<close>

definition close_p0 :: "env \<Rightarrow> writer_p0 \<Rightarrow> writer_p0 result" where
  "close_p0 e w =
     (case storage_p0 w of
        None \<Rightarrow> Inl (NullStorage, w)
      | Some h \<Rightarrow>
          let current_uri = get_relative_path e h
          in case (if mode (compression_options_p0 w) = FILE
                   then compress_file_p0 e current_uri w
                   else Inr (push_path_p0 current_uri w)) of
               Inl err \<Rightarrow> Inl err
             | Inr w \<Rightarrow>
                 let w = (if base_folder_p0 w \<noteq> []
                          then (let w = finalize_metadata_p0 e w
                                in log_p0 [WriteMetadata (base_folder_p0 w) (metadata_p0 w)] w)
                          else w)
                 in Inr (w\<lparr>storage_p0 := None\<rparr>))"

subsection \<open>The writer of \<^verbatim>\<open>writer.cpp\<close>\<close>

record writer_wr =
  storage_wr :: "storage_handle option"
  converter_wr :: bool
  max_bagfile_size_wr :: "64 word"
  relative_file_paths_wr :: "string list"
  message_count_wr :: "64 word"
  topics_wr :: topic_map
  bagfile_counter_wr :: nat
  start_time_wr :: int
  end_time_wr :: int
  storage_id_wr :: string
  uri_wr :: string
  calls_wr :: "call list"

definition log_wr :: "call list \<Rightarrow> writer_wr \<Rightarrow> writer_wr" where
  "log_wr cs w = w\<lparr>calls_wr := calls_wr w @ cs\<rparr>"

definition Writer_wr :: "env \<Rightarrow> writer_wr" where
  "Writer_wr e =
     \<lparr>storage_wr = None, converter_wr = False,
      max_bagfile_size_wr = MAX_BAGFILE_SIZE_BYTES_NO_SPLIT e, relative_file_paths_wr = [],
      message_count_wr = 0, topics_wr = [], bagfile_counter_wr = 0,
      start_time_wr = INT64_MAX, end_time_wr = INT64_MIN, storage_id_wr = [], uri_wr = [],
      calls_wr = []\<rparr>"

text \<open>\<^verbatim>\<open>next_bagfile_uri_\<close>: the name of the next file and the writer with its counter advanced.\<close>

definition next_bagfile_uri_wr :: "env \<Rightarrow> writer_wr \<Rightarrow> string \<times> writer_wr" where
  "next_bagfile_uri_wr e w =
     (let db_name = get_folder_name e (uri_wr w);
          db_name = (if bagfile_counter_wr w > 0
                     then db_name @ ''_'' @ string_of_nat (bagfile_counter_wr w)
                     else db_name)
      in (concat_path e [uri_wr w, db_name],
          w\<lparr>bagfile_counter_wr := bagfile_counter_wr w + 1\<rparr>))"

text \<open>\<^verbatim>\<open>open\<close>.\<close>

definition open_wr ::
  "env \<Rightarrow> storage_options \<Rightarrow> converter_options \<Rightarrow> writer_wr \<Rightarrow> writer_wr result" where
  "open_wr e so cv w =
     (let w = w\<lparr>uri_wr := uri so, max_bagfile_size_wr := max_bagfile_size so,
                storage_id_wr := storage_id so\<rparr>;
          w = (if output_serialization_format cv \<noteq> input_serialization_format cv
               then w\<lparr>converter_wr := True\<rparr> else w);
          next = next_bagfile_uri_wr e w;
          bagfile_uri = fst next;
          w = log_wr [OpenReadWrite bagfile_uri (storage_id so)] (snd next)
      in if open_read_write e bagfile_uri (storage_id so)
         then Inr (w\<lparr>storage_wr := Some \<lparr>opened_uri = bagfile_uri, opened_id = storage_id so\<rparr>,
                      start_time_wr := INT64_MAX, end_time_wr := INT64_MIN\<rparr>)
         else Inl (StorageInitError, w\<lparr>storage_wr := None\<rparr>))"

text \<open>\<^verbatim>\<open>create_topic\<close>: \<^verbatim>\<open>insert\<close> leaves an existing entry alone; the storage is called each time.\<close>

definition create_topic_wr :: "env \<Rightarrow> topic_metadata \<Rightarrow> writer_wr \<Rightarrow> writer_wr result" where
  "create_topic_wr e topic_with_type w =
     (if storage_wr w = None then Inl (SessionNotOpenError, w)
      else
        let w = (if converter_wr w
                 then log_wr [AddTopic (name topic_with_type) (type topic_with_type)] w
                 else w);
            info = TopicInformation0\<lparr>topic_metadata := topic_with_type\<rparr>;
            w = w\<lparr>topics_wr := fst (umap_insert (name topic_with_type, info) (topics_wr w))\<rparr>
        in Inr (log_wr [CreateTopic topic_with_type] w))"

text \<open>\<^verbatim>\<open>remove_topic\<close>: the storage is called first, then the entry is erased.\<close>

definition remove_topic_wr :: "env \<Rightarrow> topic_metadata \<Rightarrow> writer_wr \<Rightarrow> writer_wr result" where
  "remove_topic_wr e topic_with_type w =
     (if storage_wr w = None then Inl (SessionNotOpenError, w)
      else
        let w = log_wr [RemoveTopic topic_with_type] w
        in Inr (w\<lparr>topics_wr := fst (umap_erase (name topic_with_type) (topics_wr w))\<rparr>))"

text \<open>
  \<^verbatim>\<open>split_bagfile_\<close>. \<open>current_uri\<close> is the file being closed, \<open>bagfile_uri\<close> the file
  rolled over to; the last line pushes \<open>bagfile_uri\<close> when compression did not succeed.
\<close>

definition split_bagfile_wr :: "env \<Rightarrow> writer_wr \<Rightarrow> writer_wr result" where
  "split_bagfile_wr e w =
     (let current_uri = get_current_uri e (calls_wr w);
          next = next_bagfile_uri_wr e w;
          bagfile_uri = fst next;
          w = log_wr [OpenReadWrite bagfile_uri (storage_id_wr w)] (snd next)
      in if \<not> open_read_write e bagfile_uri (storage_id_wr w)
         then Inl (StorageInitError, w\<lparr>storage_wr := None\<rparr>)
         else
           let w = w\<lparr>storage_wr :=
                      Some \<lparr>opened_uri = bagfile_uri, opened_id = storage_id_wr w\<rparr>\<rparr>;
               w = log_wr
                     (map (\<lambda>topic. CreateTopic (topic_metadata (snd topic))) (topics_wr w)) w;
               w = log_wr [CompressUri current_uri] w;
               state = compress_uri_state e current_uri
           in Inr (w\<lparr>relative_file_paths_wr := relative_file_paths_wr w @
                       [if compression_success state then compressed_uri state
                        else bagfile_uri]\<rparr>))"

text \<open>\<^verbatim>\<open>should_split_bagfile\<close>, the same literal bound as in \<^verbatim>\<open>part_000\<close>.\<close>

definition should_split_bagfile_wr :: "env \<Rightarrow> writer_wr \<Rightarrow> bool" where
  "should_split_bagfile_wr e w = (get_bagfile_size e (calls_wr w) > 1024 * 100)"

text \<open>
  \<^verbatim>\<open>write\<close>: \<^verbatim>\<open>++topics_[message->topic_name].message_count\<close> goes through
  \<^verbatim>\<open>operator[]\<close>, which makes the entry when there is none.
\<close>

definition write_wr :: "env \<Rightarrow> serialized_bag_message \<Rightarrow> writer_wr \<Rightarrow> writer_wr result" where
  "write_wr e message w =
     (if storage_wr w = None then Inl (SessionNotOpenError, w)
      else
        let w = w\<lparr>topics_wr :=
                   increment_count (topic_name message)
                     (umap_index (topic_name message) (topics_wr w))\<rparr>;
            w = w\<lparr>message_count_wr := message_count_wr w + 1\<rparr>;
            do_split = should_split_bagfile_wr e w;
            w = log_wr [GetBagfileSize] w
        in case (if do_split then split_bagfile_wr e w else Inr w) of
             Inl err \<Rightarrow> Inl err
           | Inr w \<Rightarrow>
               let w = w\<lparr>start_time_wr := min (start_time_wr w) (time_stamp message)\<rparr>;
                   w = w\<lparr>end_time_wr := max (end_time_wr w) (time_stamp message)\<rparr>
               in Inr (log_wr
                    [StorageWrite (if converter_wr w then convert e message else message)] w))"

text \<open>\<^verbatim>\<open>generate_metadata_\<close>.\<close>

definition generate_metadata_wr :: "env \<Rightarrow> writer_wr \<Rightarrow> bag_metadata" where
  "generate_metadata_wr e w =
     (case storage_wr w of
        None \<Rightarrow> BagMetadata0
      | Some h \<Rightarrow>
          BagMetadata0
            \<lparr>storage_identifier := get_identifier e h,
             relative_file_paths := relative_file_paths_wr w,
             duration := wrap_int64 (end_time_wr w - start_time_wr w),
             starting_time := start_time_wr w,
             bag_message_count := message_count_wr w,
             bag_size := calculate_directory_size e (uri_wr w),
             topics_with_message_count := map snd (topics_wr w),
             compression_identifier := ''SNAPPY''\<rparr>)"

text \<open>The destructor: it returns the writer and the metadata it has written, if any.\<close>

definition close_wr :: "env \<Rightarrow> writer_wr \<Rightarrow> writer_wr \<times> bag_metadata option" where
  "close_wr e w =
     (if uri_wr w \<noteq> [] \<and> storage_wr w \<noteq> None
      then (let metadata = generate_metadata_wr e w;
                dir_name = get_folder_name e (uri_wr w)
            in ((log_wr [WriteMetadata dir_name metadata] w)\<lparr>storage_wr := None\<rparr>,
                Some metadata))
      else (w\<lparr>storage_wr := None\<rparr>, None))"

subsection \<open>The writer of \<^verbatim>\<open>compression_options.cpp\<close>\<close>

record writer_co =
  storage_co :: "storage_handle option"
  converter_co :: bool
  max_bagfile_size_co :: "64 word"
  uri_co :: string
  metadata_co :: bag_metadata
  calls_co :: "call list"

definition log_co :: "call list \<Rightarrow> writer_co \<Rightarrow> writer_co" where
  "log_co cs w = w\<lparr>calls_co := calls_co w @ cs\<rparr>"

text \<open>The constructor leaves \<^verbatim>\<open>metadata_\<close> and \<^verbatim>\<open>uri_\<close> default-constructed.\<close>

definition Writer_co :: "env \<Rightarrow> writer_co" where
  "Writer_co e =
     \<lparr>storage_co = None, converter_co = False,
      max_bagfile_size_co = MAX_BAGFILE_SIZE_NO_SPLIT e, uri_co = [],
      metadata_co = BagMetadata0, calls_co = []\<rparr>"

definition initialize_metadata_co :: "writer_co \<Rightarrow> writer_co" where
  "initialize_metadata_co w =
     w\<lparr>metadata_co := (metadata_co w)
          \<lparr>bag_message_count := 0, topics_with_message_count := [],
           starting_time := INT64_MAX, duration := 0, bag_size := 0\<rparr>\<rparr>"

definition open_co ::
  "env \<Rightarrow> storage_options \<Rightarrow> converter_options \<Rightarrow> writer_co \<Rightarrow> writer_co result" where
  "open_co e so cv w =
     (let w = (if output_serialization_format cv \<noteq> input_serialization_format cv
               then w\<lparr>converter_co := True\<rparr> else w);
          w = log_co [OpenReadWrite (uri so) (storage_id so)] w
      in if open_read_write e (uri so) (storage_id so)
         then Inr (initialize_metadata_co
                (w\<lparr>storage_co := Some \<lparr>opened_uri = uri so, opened_id = storage_id so\<rparr>,
                   uri_co := uri so, max_bagfile_size_co := max_bagfile_size so\<rparr>))
         else Inl (StorageInitError, w\<lparr>storage_co := None\<rparr>))"

text \<open>\<^verbatim>\<open>topic_already_exists\<close> and \<^verbatim>\<open>get_topics_no_duplicates\<close>.\<close>

definition topic_already_exists ::
  "env \<Rightarrow> topic_information \<Rightarrow> topic_information list \<Rightarrow> bool" where
  "topic_already_exists e ti_to_find topic_list = list_ex (topic_predicate e ti_to_find) topic_list"

fun get_topics_no_duplicates ::
  "env \<Rightarrow> topic_information list \<Rightarrow> topic_information list \<Rightarrow> topic_information list" where
  "get_topics_no_duplicates e prev_topics [] = []"
| "get_topics_no_duplicates e prev_topics (topic_information # new_topics) =
     (if \<not> topic_already_exists e topic_information prev_topics
      then topic_information # get_topics_no_duplicates e prev_topics new_topics
      else get_topics_no_duplicates e prev_topics new_topics)"

text \<open>
  \<^verbatim>\<open>aggregate_metadata_\<close>, from the aggregate \<open>M\<close> (the member \<^verbatim>\<open>metadata_\<close>) and the
  argument \<open>m\<close>, which is passed by value: after \<^verbatim>\<open>swap\<close> the member holds the file list
  of \<open>m\<close>, and the former list goes away with the argument.
\<close>

definition aggregate_metadata_co :: "env \<Rightarrow> bag_metadata \<Rightarrow> bag_metadata \<Rightarrow> bag_metadata" where
  "aggregate_metadata_co e M m =
     (let M = M\<lparr>storage_identifier := storage_identifier m\<rparr>;
          M = M\<lparr>relative_file_paths := relative_file_paths m\<rparr>;
          M = M\<lparr>bag_message_count := bag_message_count M + bag_message_count m\<rparr>;
          M = (if starting_time M > starting_time m \<and> starting_time m \<noteq> 0
               then M\<lparr>starting_time := starting_time m\<rparr> else M);
          M = M\<lparr>duration := wrap_int64 (duration M + duration m)\<rparr>;
          M = M\<lparr>bag_size := bag_size m\<rparr>;
          metadata_topics_no_duplicates =
            get_topics_no_duplicates e (topics_with_message_count M) (topics_with_message_count m)
      in M\<lparr>topics_with_message_count :=
             topics_with_message_count M @ metadata_topics_no_duplicates\<rparr>)"

text \<open>
  \<^verbatim>\<open>should_split_database\<close>; \<^verbatim>\<open>&&\<close> asks the storage for its size only when a bound
  is set.
\<close>

definition should_split_database :: "env \<Rightarrow> writer_co \<Rightarrow> bool" where
  "should_split_database e w =
     (max_bagfile_size_co w \<noteq> MAX_BAGFILE_SIZE_NO_SPLIT e \<and>
      get_current_bagfile_size e (calls_co w) > max_bagfile_size_co w)"

text \<open>\<^verbatim>\<open>write\<close>: the message goes to the storage first, the split follows.\<close>

definition write_co :: "env \<Rightarrow> serialized_bag_message \<Rightarrow> writer_co \<Rightarrow> writer_co result" where
  "write_co e message w =
     (if storage_co w = None then Inl (SessionNotOpenError, w)
      else
        let w = log_co [StorageWrite (if converter_co w then convert e message else message)] w;
            do_split = should_split_database e w;
            w = (if max_bagfile_size_co w \<noteq> MAX_BAGFILE_SIZE_NO_SPLIT e
                 then log_co [GetCurrentBagfileSize] w else w)
        in if do_split
           then (let m = get_metadata e (calls_co w);
                     w = log_co [GetMetadata] w;
                     w = w\<lparr>metadata_co := aggregate_metadata_co e (metadata_co w) m\<rparr>
                 in Inr (log_co [SplitDatabase] w))
           else Inr w)"

text \<open>
  The merge of the file lists in the words of section 4.5 of the spec (append the paths
  of \<open>m\<close>, but only those not already in the list of \<open>M\<close>), to compare
  \<^verbatim>\<open>aggregate_metadata_\<close> with.
\<close>

definition spec_merge_file_list :: "string list \<Rightarrow> string list \<Rightarrow> string list" where
  "spec_merge_file_list M_files m_files = M_files @ filter (\<lambda>path. path \<notin> set M_files) m_files"

subsection \<open>Reading results and call sequences\<close>

fun state_of :: "'w result \<Rightarrow> 'w" where
  "state_of (Inl (err, w)) = w"
| "state_of (Inr w) = w"

fun error_of :: "'w result \<Rightarrow> error option" where
  "error_of (Inl (err, w)) = Some err"
| "error_of (Inr w) = None"

text \<open>One operation after another; the first throw ends the sequence.\<close>

fun run :: "('w \<Rightarrow> 'w result) list \<Rightarrow> 'w \<Rightarrow> 'w result" where
  "run [] w = Inr w"
| "run (f # fs) w = (case f w of Inl err \<Rightarrow> Inl err | Inr w' \<Rightarrow> run fs w')"

fun is_storage_write :: "call \<Rightarrow> bool" where
  "is_storage_write (StorageWrite message) = True"
| "is_storage_write c = False"

text \<open>
  A rollover shows as the factory opening the next file, or as the storage being told to
  split.
\<close>

fun is_rollover :: "call \<Rightarrow> bool" where
  "is_rollover (OpenReadWrite u i) = True"
| "is_rollover SplitDatabase = True"
| "is_rollover c = False"

text \<open>No call that satisfies \<open>q\<close> comes after a call that satisfies \<open>p\<close>.\<close>

fun none_after :: "(call \<Rightarrow> bool) \<Rightarrow> (call \<Rightarrow> bool) \<Rightarrow> call list \<Rightarrow> bool" where
  "none_after p q [] = True"
| "none_after p q (c # cs) = ((p c \<longrightarrow> \<not> list_ex q cs) \<and> none_after p q cs)"

text \<open>The entries of a registry under one name.\<close>

definition entries_for :: "string \<Rightarrow> topic_map \<Rightarrow> topic_information list" where
  "entries_for k m = map snd (filter (\<lambda>kv. fst kv = k) m)"

subsection \<open>Sample collaborators and inputs\<close>

text \<open>
  A storage that always opens, whose handle reports the path it was opened at and whose
  file has the size \<open>sz\<close>; a file system whose paths are joined by a slash; a compressor
  that fails on files when \<open>ok\<close> is false and appends \<open>.zstd\<close> otherwise.
\<close>

fun join_path :: "string list \<Rightarrow> string" where
  "join_path [] = []"
| "join_path [p] = p"
| "join_path (p # ps) = p @ ''/'' @ join_path ps"

fun last_opened :: "call list \<Rightarrow> string \<Rightarrow> string" where
  "last_opened [] u = u"
| "last_opened (OpenReadWrite u' i # cs) u = last_opened cs u'"
| "last_opened (c # cs) u = last_opened cs u"

definition sample_env :: "64 word \<Rightarrow> bool \<Rightarrow> env" where
  "sample_env sz ok =
     \<lparr>open_read_write = (\<lambda>u i. True),
      get_relative_path = opened_uri,
      get_storage_identifier = opened_id,
      get_bagfile_size = (\<lambda>cs. sz),
      get_current_bagfile_size = (\<lambda>cs. sz),
      get_metadata = (\<lambda>cs. BagMetadata0\<lparr>relative_file_paths := [last_opened cs []]\<rparr>),
      get_current_uri = (\<lambda>cs. last_opened cs []),
      convert = (\<lambda>message. message),
      compress_uri = (\<lambda>u. if ok then Inr (u @ ''.zstd'') else Inl CompressionError),
      compress_uri_state =
        (\<lambda>u. \<lparr>compression_success = ok, compressed_uri = (if ok then u @ ''.zstd'' else [])\<rparr>),
      compress_bag_message_data = (\<lambda>message. message),
      get_compression_identifier = ''zstd'',
      get_folder_name = (\<lambda>u. u),
      concat_path = join_path,
      get_file_size = (\<lambda>u. 0),
      calculate_directory_size = (\<lambda>u. 0),
      MAX_BAGFILE_SIZE_NO_SPLIT = 0,
      MAX_BAGFILE_SIZE_BYTES_NO_SPLIT = 0,
      CompressionModeToStringMap = compression_mode_to_string,
      get_identifier = opened_id,
      topic_predicate = (\<lambda>a b. name (topic_metadata a) = name (topic_metadata b))\<rparr>"

definition topic_a :: topic_metadata where
  "topic_a = \<lparr>name = ''/a'', type = ''std_msgs/String'', serialization_format = ''cdr''\<rparr>"

definition message_a :: serialized_bag_message where
  "message_a = \<lparr>serialized_data = [1, 2, 3], time_stamp = 5, topic_name = ''/a''\<rparr>"

definition sample_storage_options :: "64 word \<Rightarrow> storage_options" where
  "sample_storage_options bound = \<lparr>uri = ''bag'', storage_id = ''sqlite3'', max_bagfile_size = bound\<rparr>"

definition same_format :: converter_options where
  "same_format = \<lparr>input_serialization_format = ''cdr'', output_serialization_format = ''cdr''\<rparr>"

definition file_compression :: compression_options where
  "file_compression = \<lparr>mode = FILE, format = ''zstd''\<rparr>"

definition no_compression :: compression_options where
  "no_compression = \<lparr>mode = NONE, format = []\<rparr>"

text \<open>
  The three writers after a successful \<open>open\<close> on the sample storage, which reports
  the file size \<open>sz\<close>.
\<close>

definition opened_wr :: "64 word \<Rightarrow> 64 word \<Rightarrow> writer_wr" where
  "opened_wr sz bound =
     state_of (open_wr (sample_env sz True) (sample_storage_options bound) same_format
       (Writer_wr (sample_env sz True)))"

definition opened_p0 :: "64 word \<Rightarrow> 64 word \<Rightarrow> compression_options \<Rightarrow> writer_p0" where
  "opened_p0 sz bound co =
     state_of (open_p0 (sample_env sz True) (sample_storage_options bound) same_format co
       (Writer_p0 (sample_env sz True) no_compression))"

definition opened_co :: "64 word \<Rightarrow> 64 word \<Rightarrow> writer_co" where
  "opened_co sz bound =
     state_of (open_co (sample_env sz True) (sample_storage_options bound) same_format
       (Writer_co (sample_env sz True)))"

text \<open>The same after \<open>open\<close> and \<open>create_topic\<close> for the sample topic.\<close>

definition recording_p0 :: "env \<Rightarrow> compression_options \<Rightarrow> writer_p0" where
  "recording_p0 e co =
     state_of (run [open_p0 e (sample_storage_options 0) same_format co, create_topic_p0 e topic_a]
       (Writer_p0 e no_compression))"

definition recording_wr :: "env \<Rightarrow> writer_wr" where
  "recording_wr e =
     state_of (run [open_wr e (sample_storage_options 0) same_format, create_topic_wr e topic_a]
       (Writer_wr e))"

section \<open>Properties\<close>

subsection \<open>The registry\<close>

lemma map_of_None_delete: "map_of m k = None \<Longrightarrow> AList.delete k m = m"
  by (induction m) (auto split: if_splits)

lemma map_of_None_filter: "map_of m k = None \<Longrightarrow> filter (\<lambda>kv. fst kv = k) m = []"
  by (induction m) (auto split: if_splits)

lemma umap_erase_absent: "map_of m k = None \<Longrightarrow> umap_erase k m = (m, 0)"
  by (simp add: umap_erase_def map_of_None_delete map_of_None_filter)

lemma entries_for_distinct:
  "distinct (map fst m) \<Longrightarrow> map_of m k = Some v \<Longrightarrow> entries_for k m = [v]"
proof (induction m)
  case Nil
  then show ?case by simp
next
  case (Cons kv m)
  show ?case
  proof (cases "fst kv = k")
    case True
    with Cons.prems have "map_of m k = None" "snd kv = v"
      by (auto simp: map_of_eq_None_iff)
    with True show ?thesis
      by (simp add: entries_for_def map_of_None_filter)
  next
    case False
    with Cons show ?thesis
      by (auto simp: entries_for_def)
  qed
qed

lemma umap_insert_present: "map_of m (fst kv) \<noteq> None \<Longrightarrow> umap_insert kv m = (m, False)"
  by (simp add: umap_insert_def)

lemma umap_insert_registers: "map_of (fst (umap_insert kv m)) (fst kv) \<noteq> None"
  by (cases kv) (auto simp: umap_insert_def map_of_eq_None_iff)

lemma umap_insert_distinct:
  "distinct (map fst m) \<Longrightarrow> distinct (map fst (fst (umap_insert kv m)))"
  by (auto simp: umap_insert_def map_of_eq_None_iff)

subsection \<open>Writing to a topic that is not registered\<close>

text \<open>
  In \<^verbatim>\<open>part_000\<close> the look-up \<^verbatim>\<open>at\<close> throws before anything is changed: the writer is
  returned as it was, so no counter, no metadata and no call to the storage is touched.
\<close>

lemma write_p0_unknown_topic:
  "storage_p0 w \<noteq> None \<Longrightarrow> map_of (topics_names_to_info_p0 w) (topic_name m) = None \<Longrightarrow>
   write_p0 e m w = Inl (UnknownTopicError, w)"
  by (simp add: write_p0_def)

lemma write_p0_not_open: "storage_p0 w = None \<Longrightarrow> write_p0 e m w = Inl (SessionNotOpenError, w)"
  by (simp add: write_p0_def)

text \<open>
  C1. A message whose topic was never registered must make \<open>write\<close> fail with
  \<open>UnknownTopicError\<close> and change nothing. The \<open>write\<close> of \<^verbatim>\<open>writer.cpp\<close> does otherwise:
  on a freshly opened writer with an empty registry it returns normally, makes an entry
  for the topic with count 1, raises the total to 1 and hands the message to the storage.
\<close>

theorem write_wr_accepts_unregistered_topic:
  "error_of (open_wr (sample_env 0 True) (sample_storage_options 0) same_format
              (Writer_wr (sample_env 0 True))) = None
   \<and> storage_wr (opened_wr 0 0) \<noteq> None
   \<and> topics_wr (opened_wr 0 0) = []
   \<and> error_of (write_wr (sample_env 0 True) message_a (opened_wr 0 0)) = None
   \<and> topics_wr (state_of (write_wr (sample_env 0 True) message_a (opened_wr 0 0)))
        = [(''/a'', TopicInformation0\<lparr>message_count := 1\<rparr>)]
   \<and> message_count_wr (state_of (write_wr (sample_env 0 True) message_a (opened_wr 0 0))) = 1
   \<and> calls_wr (state_of (write_wr (sample_env 0 True) message_a (opened_wr 0 0)))
        = calls_wr (opened_wr 0 0) @ [GetBagfileSize, StorageWrite message_a]"
  by (simp add: sample_env_def sample_storage_options_def same_format_def message_a_def
      opened_wr_def Writer_wr_def open_wr_def next_bagfile_uri_wr_def log_wr_def
      INT64_MAX_def INT64_MIN_def should_split_bagfile_wr_def write_wr_def umap_index_def
      increment_count_def TopicInformation0_def Let_def)

subsection \<open>The split policy\<close>

text \<open>
  \<^verbatim>\<open>should_split_database\<close> follows the configured bound: never when the bound is the
  no-split constant, otherwise exactly when the size is strictly greater.
\<close>

lemma should_split_database_unset:
  "max_bagfile_size_co w = MAX_BAGFILE_SIZE_NO_SPLIT e \<Longrightarrow> \<not> should_split_database e w"
  by (simp add: should_split_database_def)

lemma should_split_database_bound:
  "max_bagfile_size_co w \<noteq> MAX_BAGFILE_SIZE_NO_SPLIT e \<Longrightarrow>
   should_split_database e w = (get_current_bagfile_size e (calls_co w) > max_bagfile_size_co w)"
  by (simp add: should_split_database_def)

lemma should_split_bagfile_p0_bound_unread:
  "should_split_bagfile_p0 e (w\<lparr>max_bagfile_size_p0 := bound\<rparr>) = should_split_bagfile_p0 e w"
  by (simp add: should_split_bagfile_p0_def)

lemma should_split_bagfile_wr_bound_unread:
  "should_split_bagfile_wr e (w\<lparr>max_bagfile_size_wr := bound\<rparr>) = should_split_bagfile_wr e w"
  by (simp add: should_split_bagfile_wr_def)

text \<open>
  C2. With no bound configured the split policy must never fire, and with a bound \<open>T\<close>
  it must fire exactly when the size is strictly greater than \<open>T\<close>. The
  \<open>should_split_bagfile\<close> of \<^verbatim>\<open>part_000\<close> and of \<^verbatim>\<open>writer.cpp\<close> does not read the bound:
  with the no-split constant as bound and a file of 102401 bytes it fires, and with the
  bound 10 and a file of 11 bytes it does not.
\<close>

theorem should_split_bagfile_ignores_bound:
  "max_bagfile_size_p0 (opened_p0 102401 0 no_compression) = MAX_BAGFILE_SIZE_BYTES_NO_SPLIT (sample_env 102401 True)
   \<and> should_split_bagfile_p0 (sample_env 102401 True) (opened_p0 102401 0 no_compression)
   \<and> max_bagfile_size_p0 (opened_p0 11 10 no_compression) = 10
   \<and> get_bagfile_size (sample_env 11 True) (calls_p0 (opened_p0 11 10 no_compression)) = 11
   \<and> \<not> should_split_bagfile_p0 (sample_env 11 True) (opened_p0 11 10 no_compression)
   \<and> max_bagfile_size_wr (opened_wr 102401 0) = MAX_BAGFILE_SIZE_BYTES_NO_SPLIT (sample_env 102401 True)
   \<and> should_split_bagfile_wr (sample_env 102401 True) (opened_wr 102401 0)
   \<and> max_bagfile_size_wr (opened_wr 11 10) = 10
   \<and> get_bagfile_size (sample_env 11 True) (calls_wr (opened_wr 11 10)) = 11
   \<and> \<not> should_split_bagfile_wr (sample_env 11 True) (opened_wr 11 10)"
  by (simp add: sample_env_def sample_storage_options_def same_format_def opened_wr_def
      Writer_wr_def open_wr_def next_bagfile_uri_wr_def log_wr_def INT64_MAX_def
      INT64_MIN_def opened_p0_def Writer_p0_def open_p0_def open2_p0_def
      init_metadata_p0_def log_p0_def format_storage_uri_def no_compression_def
      should_split_bagfile_p0_def should_split_bagfile_wr_def Let_def)

subsection \<open>Registering a topic twice\<close>

lemma create_topic_p0_registered:
  assumes "storage_p0 w \<noteq> None" "map_of (topics_names_to_info_p0 w) (name t) \<noteq> None"
  shows "\<exists>w'. create_topic_p0 e t w = Inr w'
     \<and> topics_names_to_info_p0 w' = topics_names_to_info_p0 w"
  using assms by (auto simp: create_topic_p0_def log_p0_def Let_def)

lemma create_topic_p0_after:
  assumes "create_topic_p0 e t w = Inr w1"
  shows "storage_p0 w1 \<noteq> None \<and> map_of (topics_names_to_info_p0 w1) (name t) \<noteq> None"
  using assms
  by (auto simp: create_topic_p0_def log_p0_def Let_def umap_insert_def map_add_def split: if_splits)

lemma create_topic_p0_distinct:
  assumes "create_topic_p0 e t w = Inr w1" "distinct (map fst (topics_names_to_info_p0 w))"
  shows "distinct (map fst (topics_names_to_info_p0 w1))"
  using assms
  by (auto simp: create_topic_p0_def log_p0_def Let_def umap_insert_def map_of_eq_None_iff split: if_splits)

lemma create_topic_wr_registered:
  assumes "storage_wr w \<noteq> None" "map_of (topics_wr w) (name t) \<noteq> None"
  shows "\<exists>w'. create_topic_wr e t w = Inr w' \<and> topics_wr w' = topics_wr w"
  using assms by (auto simp: create_topic_wr_def log_wr_def Let_def umap_insert_def)

lemma create_topic_wr_after:
  assumes "create_topic_wr e t w = Inr w1"
  shows "storage_wr w1 \<noteq> None \<and> map_of (topics_wr w1) (name t) \<noteq> None"
  using assms
  by (auto simp: create_topic_wr_def log_wr_def Let_def umap_insert_def map_add_def split: if_splits)

lemma create_topic_wr_distinct:
  assumes "create_topic_wr e t w = Inr w1" "distinct (map fst (topics_wr w))"
  shows "distinct (map fst (topics_wr w1))"
  using assms
  by (auto simp: create_topic_wr_def log_wr_def Let_def umap_insert_def map_of_eq_None_iff split: if_splits)

lemma create_topic_p0_registry:
  assumes "storage_p0 w \<noteq> None"
  shows "\<exists>w1. create_topic_p0 e t w = Inr w1
     \<and> topics_names_to_info_p0 w1
         = (if map_of (topics_names_to_info_p0 w) (name t) = None
            then topics_names_to_info_p0 w @ [(name t, TopicInformation0\<lparr>topic_metadata := t\<rparr>)]
            else topics_names_to_info_p0 w)"
  using assms by (auto simp: create_topic_p0_def log_p0_def umap_insert_def Let_def)

lemma create_topic_wr_registry:
  assumes "storage_wr w \<noteq> None"
  shows "\<exists>w1. create_topic_wr e t w = Inr w1
     \<and> topics_wr w1
         = (if map_of (topics_wr w) (name t) = None
            then topics_wr w @ [(name t, TopicInformation0\<lparr>topic_metadata := t\<rparr>)]
            else topics_wr w)"
  using assms by (auto simp: create_topic_wr_def log_wr_def umap_insert_def Let_def)

text \<open>
  The keys of a registry are distinct when the writer is made, and every operation keeps
  them so.
\<close>

lemma Writer_p0_distinct: "distinct (map fst (topics_names_to_info_p0 (Writer_p0 e co)))"
  by (simp add: Writer_p0_def)

lemma Writer_wr_distinct: "distinct (map fst (topics_wr (Writer_wr e)))"
  by (simp add: Writer_wr_def)

lemma increment_count_distinct:
  "distinct (map fst m) \<Longrightarrow> distinct (map fst (increment_count k m))"
  by (simp add: increment_count_def distinct_map_entry)

lemma umap_index_distinct:
  "distinct (map fst m) \<Longrightarrow> distinct (map fst (umap_index k m))"
  by (auto simp: umap_index_def map_of_eq_None_iff)

lemma umap_erase_distinct:
  "distinct (map fst m) \<Longrightarrow> distinct (map fst (fst (umap_erase k m)))"
  by (simp add: umap_erase_def distinct_delete)

lemma open_p0_topics:
  "topics_names_to_info_p0 (state_of (open_p0 e so cv co w)) = topics_names_to_info_p0 w"
  by (simp add: open_p0_def open2_p0_def init_metadata_p0_def log_p0_def Let_def)

lemma remove_topic_p0_distinct:
  "distinct (map fst (topics_names_to_info_p0 w)) \<Longrightarrow>
   distinct (map fst (topics_names_to_info_p0 (state_of (remove_topic_p0 e t w))))"
  by (simp add: remove_topic_p0_def log_p0_def Let_def umap_erase_distinct)

lemma compress_file_p0_topics:
  "topics_names_to_info_p0 (state_of (compress_file_p0 e u w)) = topics_names_to_info_p0 w"
  by (cases "compress_uri e u")
     (simp_all add: compress_file_p0_def log_p0_def push_path_p0_def Let_def)

lemma split_bagfile_p0_topics:
  "topics_names_to_info_p0 (state_of (split_bagfile_p0 e w)) = topics_names_to_info_p0 w"
  by (cases "storage_p0 w")
     (simp_all add: split_bagfile_p0_def log_p0_def push_path_p0_def Let_def
        compress_file_p0_topics)

lemma split_bagfile_p0_topics_Inl:
  "split_bagfile_p0 e w = Inl (a, b) \<Longrightarrow> topics_names_to_info_p0 b = topics_names_to_info_p0 w"
  using split_bagfile_p0_topics [of e w] by simp

lemma split_bagfile_p0_topics_Inr:
  "split_bagfile_p0 e w = Inr x \<Longrightarrow> topics_names_to_info_p0 x = topics_names_to_info_p0 w"
  using split_bagfile_p0_topics [of e w] by simp

lemma write_p0_distinct:
  assumes "distinct (map fst (topics_names_to_info_p0 w))"
  shows "distinct (map fst (topics_names_to_info_p0 (state_of (write_p0 e m w))))"
  using assms
  by (auto simp: write_p0_def Let_def log_p0_def increment_count_distinct
      split: sum.splits if_splits
      dest!: split_bagfile_p0_topics_Inl split_bagfile_p0_topics_Inr)

lemma split_bagfile_wr_topics:
  "topics_wr (state_of (split_bagfile_wr e w)) = topics_wr w"
  by (simp add: split_bagfile_wr_def next_bagfile_uri_wr_def log_wr_def Let_def)

lemma split_bagfile_wr_topics_Inl:
  "split_bagfile_wr e w = Inl (a, b) \<Longrightarrow> topics_wr b = topics_wr w"
  using split_bagfile_wr_topics [of e w] by simp

lemma split_bagfile_wr_topics_Inr:
  "split_bagfile_wr e w = Inr x \<Longrightarrow> topics_wr x = topics_wr w"
  using split_bagfile_wr_topics [of e w] by simp

lemma write_wr_distinct:
  assumes "distinct (map fst (topics_wr w))"
  shows "distinct (map fst (topics_wr (state_of (write_wr e m w))))"
  using assms
  by (auto simp: write_wr_def Let_def log_wr_def increment_count_distinct umap_index_distinct
      split: sum.splits if_splits
      dest!: split_bagfile_wr_topics_Inl split_bagfile_wr_topics_Inr)

lemma remove_topic_wr_distinct:
  "distinct (map fst (topics_wr w)) \<Longrightarrow>
   distinct (map fst (topics_wr (state_of (remove_topic_wr e t w))))"
  by (simp add: remove_topic_wr_def log_wr_def Let_def umap_erase_distinct)

lemma open_wr_topics:
  "topics_wr (state_of (open_wr e so cv w)) = topics_wr w"
  by (simp add: open_wr_def next_bagfile_uri_wr_def log_wr_def Let_def)

text \<open>
  C4. \<open>create_topic\<close> is idempotent on the registry, in \<^verbatim>\<open>part_000\<close> and in
  \<^verbatim>\<open>writer.cpp\<close>. On an open session a call succeeds and changes the registry in one way
  only: when the name is not yet registered, a fresh entry with count 0 is appended;
  when it is registered, whatever its counter has reached, the registry stays as it
  was. A second call with a descriptor of the same name succeeds as well and leaves the
  registry as the first left it, so the entry, with its counter, is unchanged and is the
  only entry under that name.
\<close>

theorem create_topic_idempotent:
  assumes "name t' = name t"
  shows "(storage_p0 w \<noteq> None \<and> distinct (map fst (topics_names_to_info_p0 w)) \<longrightarrow>
           (\<exists>w1 w2 info.
              create_topic_p0 e t w = Inr w1 \<and> create_topic_p0 e t' w1 = Inr w2
              \<and> topics_names_to_info_p0 w1
                  = (if map_of (topics_names_to_info_p0 w) (name t) = None
                     then topics_names_to_info_p0 w
                          @ [(name t, TopicInformation0\<lparr>topic_metadata := t\<rparr>)]
                     else topics_names_to_info_p0 w)
              \<and> topics_names_to_info_p0 w2 = topics_names_to_info_p0 w1
              \<and> map_of (topics_names_to_info_p0 w1) (name t) = Some info
              \<and> entries_for (name t) (topics_names_to_info_p0 w2) = [info]))
       \<and> (storage_wr v \<noteq> None \<and> distinct (map fst (topics_wr v)) \<longrightarrow>
           (\<exists>v1 v2 info.
              create_topic_wr e t v = Inr v1 \<and> create_topic_wr e t' v1 = Inr v2
              \<and> topics_wr v1
                  = (if map_of (topics_wr v) (name t) = None
                     then topics_wr v @ [(name t, TopicInformation0\<lparr>topic_metadata := t\<rparr>)]
                     else topics_wr v)
              \<and> topics_wr v2 = topics_wr v1
              \<and> map_of (topics_wr v1) (name t) = Some info
              \<and> entries_for (name t) (topics_wr v2) = [info]))"
proof (intro conjI impI)
  assume a: "storage_p0 w \<noteq> None \<and> distinct (map fst (topics_names_to_info_p0 w))"
  with create_topic_p0_registry [of w e t] obtain w1 where
    w1: "create_topic_p0 e t w = Inr w1"
    and g: "topics_names_to_info_p0 w1
         = (if map_of (topics_names_to_info_p0 w) (name t) = None
            then topics_names_to_info_p0 w @ [(name t, TopicInformation0\<lparr>topic_metadata := t\<rparr>)]
            else topics_names_to_info_p0 w)"
    by blast
  with a have d: "distinct (map fst (topics_names_to_info_p0 w1))"
    using create_topic_p0_distinct by blast
  from w1 have r: "storage_p0 w1 \<noteq> None" "map_of (topics_names_to_info_p0 w1) (name t') \<noteq> None"
    using create_topic_p0_after assms by auto
  then obtain info where i: "map_of (topics_names_to_info_p0 w1) (name t) = Some info"
    using assms by auto
  from create_topic_p0_registered [OF r] obtain w2 where
    w2: "create_topic_p0 e t' w1 = Inr w2"
        "topics_names_to_info_p0 w2 = topics_names_to_info_p0 w1"
    by blast
  from d i w2 have "entries_for (name t) (topics_names_to_info_p0 w2) = [info]"
    by (simp add: entries_for_distinct)
  with w1 w2 g i show "\<exists>w1 w2 info.
              create_topic_p0 e t w = Inr w1 \<and> create_topic_p0 e t' w1 = Inr w2
              \<and> topics_names_to_info_p0 w1
                  = (if map_of (topics_names_to_info_p0 w) (name t) = None
                     then topics_names_to_info_p0 w
                          @ [(name t, TopicInformation0\<lparr>topic_metadata := t\<rparr>)]
                     else topics_names_to_info_p0 w)
              \<and> topics_names_to_info_p0 w2 = topics_names_to_info_p0 w1
              \<and> map_of (topics_names_to_info_p0 w1) (name t) = Some info
              \<and> entries_for (name t) (topics_names_to_info_p0 w2) = [info]"
    by blast
next
  assume a: "storage_wr v \<noteq> None \<and> distinct (map fst (topics_wr v))"
  with create_topic_wr_registry [of v e t] obtain v1 where
    v1: "create_topic_wr e t v = Inr v1"
    and g: "topics_wr v1
         = (if map_of (topics_wr v) (name t) = None
            then topics_wr v @ [(name t, TopicInformation0\<lparr>topic_metadata := t\<rparr>)]
            else topics_wr v)"
    by blast
  with a have d: "distinct (map fst (topics_wr v1))"
    using create_topic_wr_distinct by blast
  from v1 have r: "storage_wr v1 \<noteq> None" "map_of (topics_wr v1) (name t') \<noteq> None"
    using create_topic_wr_after assms by auto
  then obtain info where i: "map_of (topics_wr v1) (name t) = Some info"
    using assms by auto
  from create_topic_wr_registered [OF r] obtain v2 where
    v2: "create_topic_wr e t' v1 = Inr v2" "topics_wr v2 = topics_wr v1"
    by blast
  from d i v2 have "entries_for (name t) (topics_wr v2) = [info]"
    by (simp add: entries_for_distinct)
  with v1 v2 g i show "\<exists>v1 v2 info.
              create_topic_wr e t v = Inr v1 \<and> create_topic_wr e t' v1 = Inr v2
              \<and> topics_wr v1
                  = (if map_of (topics_wr v) (name t) = None
                     then topics_wr v @ [(name t, TopicInformation0\<lparr>topic_metadata := t\<rparr>)]
                     else topics_wr v)
              \<and> topics_wr v2 = topics_wr v1
              \<and> map_of (topics_wr v1) (name t) = Some info
              \<and> entries_for (name t) (topics_wr v2) = [info]"
    by blast
qed

theorem create_topic_idempotent_witness:
  "name topic_a = name topic_a
   \<and> storage_p0 (state_of (write_p0 (sample_env 0 True) message_a
          (recording_p0 (sample_env 0 True) no_compression))) \<noteq> None
   \<and> distinct (map fst (topics_names_to_info_p0 (state_of (write_p0 (sample_env 0 True) message_a
          (recording_p0 (sample_env 0 True) no_compression)))))
   \<and> map_of (topics_names_to_info_p0 (state_of (write_p0 (sample_env 0 True) message_a
          (recording_p0 (sample_env 0 True) no_compression)))) (name topic_a)
        = Some \<lparr>topic_metadata = topic_a, message_count = 1\<rparr>
   \<and> (\<exists>w1 w2 info.
         create_topic_p0 (sample_env 0 True) topic_a
           (state_of (write_p0 (sample_env 0 True) message_a
              (recording_p0 (sample_env 0 True) no_compression))) = Inr w1
         \<and> create_topic_p0 (sample_env 0 True) topic_a w1 = Inr w2
         \<and> topics_names_to_info_p0 w1
             = (if map_of (topics_names_to_info_p0 (state_of (write_p0 (sample_env 0 True) message_a
                      (recording_p0 (sample_env 0 True) no_compression)))) (name topic_a) = None
                then topics_names_to_info_p0 (state_of (write_p0 (sample_env 0 True) message_a
                      (recording_p0 (sample_env 0 True) no_compression)))
                     @ [(name topic_a, TopicInformation0\<lparr>topic_metadata := topic_a\<rparr>)]
                else topics_names_to_info_p0 (state_of (write_p0 (sample_env 0 True) message_a
                      (recording_p0 (sample_env 0 True) no_compression))))
         \<and> topics_names_to_info_p0 w2 = topics_names_to_info_p0 w1
         \<and> map_of (topics_names_to_info_p0 w1) (name topic_a) = Some info
         \<and> entries_for (name topic_a) (topics_names_to_info_p0 w2) = [info])
   \<and> storage_wr (state_of (write_wr (sample_env 0 True) message_a
          (recording_wr (sample_env 0 True)))) \<noteq> None
   \<and> distinct (map fst (topics_wr (state_of (write_wr (sample_env 0 True) message_a
          (recording_wr (sample_env 0 True))))))
   \<and> map_of (topics_wr (state_of (write_wr (sample_env 0 True) message_a
          (recording_wr (sample_env 0 True))))) (name topic_a)
        = Some \<lparr>topic_metadata = topic_a, message_count = 1\<rparr>
   \<and> (\<exists>v1 v2 info.
         create_topic_wr (sample_env 0 True) topic_a
           (state_of (write_wr (sample_env 0 True) message_a
              (recording_wr (sample_env 0 True)))) = Inr v1
         \<and> create_topic_wr (sample_env 0 True) topic_a v1 = Inr v2
         \<and> topics_wr v1
             = (if map_of (topics_wr (state_of (write_wr (sample_env 0 True) message_a
                      (recording_wr (sample_env 0 True))))) (name topic_a) = None
                then topics_wr (state_of (write_wr (sample_env 0 True) message_a
                      (recording_wr (sample_env 0 True))))
                     @ [(name topic_a, TopicInformation0\<lparr>topic_metadata := topic_a\<rparr>)]
                else topics_wr (state_of (write_wr (sample_env 0 True) message_a
                      (recording_wr (sample_env 0 True)))))
         \<and> topics_wr v2 = topics_wr v1
         \<and> map_of (topics_wr v1) (name topic_a) = Some info
         \<and> entries_for (name topic_a) (topics_wr v2) = [info])"
proof -
  have n: "name topic_a = name topic_a" by simp
  have p: "storage_p0 (state_of (write_p0 (sample_env 0 True) message_a
          (recording_p0 (sample_env 0 True) no_compression))) \<noteq> None
     \<and> distinct (map fst (topics_names_to_info_p0 (state_of (write_p0 (sample_env 0 True)
          message_a (recording_p0 (sample_env 0 True) no_compression)))))
     \<and> map_of (topics_names_to_info_p0 (state_of (write_p0 (sample_env 0 True) message_a
          (recording_p0 (sample_env 0 True) no_compression)))) (name topic_a)
        = Some \<lparr>topic_metadata = topic_a, message_count = 1\<rparr>"
    by (simp add: sample_env_def sample_storage_options_def same_format_def topic_a_def
        message_a_def recording_p0_def Writer_p0_def open_p0_def open2_p0_def
        init_metadata_p0_def log_p0_def format_storage_uri_def no_compression_def
        create_topic_p0_def write_p0_def should_split_bagfile_p0_def umap_insert_def
        increment_count_def TopicInformation0_def Let_def)
  have v: "storage_wr (state_of (write_wr (sample_env 0 True) message_a
          (recording_wr (sample_env 0 True)))) \<noteq> None
     \<and> distinct (map fst (topics_wr (state_of (write_wr (sample_env 0 True) message_a
          (recording_wr (sample_env 0 True))))))
     \<and> map_of (topics_wr (state_of (write_wr (sample_env 0 True) message_a
          (recording_wr (sample_env 0 True))))) (name topic_a)
        = Some \<lparr>topic_metadata = topic_a, message_count = 1\<rparr>"
    by (simp add: sample_env_def sample_storage_options_def same_format_def topic_a_def
        message_a_def recording_wr_def Writer_wr_def open_wr_def next_bagfile_uri_wr_def
        log_wr_def create_topic_wr_def write_wr_def should_split_bagfile_wr_def
        umap_insert_def umap_index_def increment_count_def TopicInformation0_def Let_def)
  from create_topic_idempotent [OF n,
      of "state_of (write_p0 (sample_env 0 True) message_a
            (recording_p0 (sample_env 0 True) no_compression))"
         "sample_env 0 True"
         "state_of (write_wr (sample_env 0 True) message_a (recording_wr (sample_env 0 True)))"]
    p v
  show ?thesis by blast
qed

subsection \<open>Total and per-topic message counts\<close>

text \<open>
  \<^verbatim>\<open>finalize_metadata\<close> of \<^verbatim>\<open>part_000\<close> recomputes the total from the registry, so the two
  agree whatever happened before.
\<close>

lemma collect_topics_count:
  "bag_message_count (collect_topics ts md)
     = bag_message_count md + sum_list (map (\<lambda>topic. message_count (snd topic)) ts)"
  by (induction ts arbitrary: md) (simp_all add: add.assoc)

lemma collect_topics_list:
  "topics_with_message_count (collect_topics ts md) = topics_with_message_count md @ map snd ts"
  by (induction ts arbitrary: md) simp_all

lemma finalize_metadata_p0_topics:
  "topics_with_message_count (metadata_p0 (finalize_metadata_p0 e w))
     = map snd (topics_names_to_info_p0 w)"
  by (simp add: finalize_metadata_p0_def Let_def collect_topics_list)

lemma finalize_metadata_p0_count:
  "bag_message_count (metadata_p0 (finalize_metadata_p0 e w))
     = sum_list (map message_count (topics_with_message_count (metadata_p0 (finalize_metadata_p0 e w))))"
  by (simp add: finalize_metadata_p0_topics)
     (simp add: finalize_metadata_p0_def Let_def collect_topics_count comp_def)


text \<open>
  C6. The total message count of the final metadata must be the sum of the per-topic
  counts. \<^verbatim>\<open>generate_metadata_\<close> of \<^verbatim>\<open>writer.cpp\<close> reports the running total
  \<^verbatim>\<open>message_count_\<close>, which \<open>remove_topic\<close> does not adjust: after open, create_topic,
  one write and remove_topic, the metadata written at the end have total 1 and no topic.
\<close>

theorem generate_metadata_wr_count_after_remove:
  "error_of (run [open_wr (sample_env 0 True) (sample_storage_options 0) same_format,
                  create_topic_wr (sample_env 0 True) topic_a,
                  write_wr (sample_env 0 True) message_a,
                  remove_topic_wr (sample_env 0 True) topic_a] (Writer_wr (sample_env 0 True))) = None
   \<and> map_option bag_message_count
        (snd (close_wr (sample_env 0 True)
          (state_of (run [open_wr (sample_env 0 True) (sample_storage_options 0) same_format,
                  create_topic_wr (sample_env 0 True) topic_a,
                  write_wr (sample_env 0 True) message_a,
                  remove_topic_wr (sample_env 0 True) topic_a] (Writer_wr (sample_env 0 True)))))) = Some 1
   \<and> map_option topics_with_message_count
        (snd (close_wr (sample_env 0 True)
          (state_of (run [open_wr (sample_env 0 True) (sample_storage_options 0) same_format,
                  create_topic_wr (sample_env 0 True) topic_a,
                  write_wr (sample_env 0 True) message_a,
                  remove_topic_wr (sample_env 0 True) topic_a] (Writer_wr (sample_env 0 True)))))) = Some []"
  by (simp add: sample_env_def sample_storage_options_def same_format_def topic_a_def message_a_def
      Writer_wr_def open_wr_def next_bagfile_uri_wr_def log_wr_def INT64_MAX_def
      INT64_MIN_def create_topic_wr_def write_wr_def remove_topic_wr_def
      should_split_bagfile_wr_def close_wr_def generate_metadata_wr_def umap_insert_def
      umap_index_def umap_erase_def increment_count_def TopicInformation0_def
      BagMetadata0_def Let_def)

subsection \<open>Removing a topic that is not registered\<close>

text \<open>
  In \<^verbatim>\<open>part_000\<close> \<open>remove_topic\<close> fails on an unknown name and on a closed session, and
  returns the writer as it was.
\<close>

lemma remove_topic_p0_unknown:
  "storage_p0 w \<noteq> None \<Longrightarrow> map_of (topics_names_to_info_p0 w) (name t) = None \<Longrightarrow>
   remove_topic_p0 e t w = Inl (UnknownTopicError, w)"
  by (simp add: remove_topic_p0_def umap_erase_absent)

lemma remove_topic_p0_not_open:
  "storage_p0 w = None \<Longrightarrow> remove_topic_p0 e t w = Inl (SessionNotOpenError, w)"
  by (simp add: remove_topic_p0_def)

text \<open>
  C8. \<open>remove_topic\<close> on a name that is not registered must fail with
  \<open>UnknownTopicError\<close> and leave registry and storage alone. The \<open>remove_topic\<close> of
  \<^verbatim>\<open>writer.cpp\<close> has no such check: on an open writer with an empty registry it returns
  normally after passing the removal on to the storage.
\<close>

theorem remove_topic_wr_accepts_unregistered_topic:
  "storage_wr (opened_wr 0 0) \<noteq> None
   \<and> map_of (topics_wr (opened_wr 0 0)) (name topic_a) = None
   \<and> error_of (remove_topic_wr (sample_env 0 True) topic_a (opened_wr 0 0)) = None
   \<and> calls_wr (state_of (remove_topic_wr (sample_env 0 True) topic_a (opened_wr 0 0)))
        = calls_wr (opened_wr 0 0) @ [RemoveTopic topic_a]"
  by (simp add: sample_env_def sample_storage_options_def same_format_def topic_a_def opened_wr_def
      Writer_wr_def open_wr_def next_bagfile_uri_wr_def log_wr_def INT64_MAX_def
      INT64_MIN_def remove_topic_wr_def umap_erase_def Let_def)


subsection \<open>The order of split and write\<close>

lemma list_ex_create_topic_write [simp]:
  "\<not> list_ex is_storage_write (map (\<lambda>topic. CreateTopic (f topic)) ts)"
  by (induction ts) simp_all

lemma list_ex_create_topic_rollover [simp]:
  "\<not> list_ex is_rollover (map (\<lambda>topic. CreateTopic (f topic)) ts)"
  by (induction ts) simp_all

lemma none_after_last:
  "\<not> list_ex p cs \<Longrightarrow> none_after p q (cs @ [c])"
  by (induction cs) simp_all

lemma compress_file_p0_calls:
  "\<exists>cs. calls_p0 (state_of (compress_file_p0 e u w)) = calls_p0 w @ cs
        \<and> \<not> list_ex is_storage_write cs \<and> \<not> list_ex is_rollover cs"
  by (cases "compress_uri e u")
     (simp_all add: compress_file_p0_def log_p0_def push_path_p0_def Let_def)

lemma split_bagfile_p0_calls:
  assumes "storage_p0 w \<noteq> None"
  shows "\<exists>cs. calls_p0 (state_of (split_bagfile_p0 e w)) = calls_p0 w @ cs
        \<and> \<not> list_ex is_storage_write cs \<and> list_ex is_rollover cs"
proof -
  from assms obtain h where h: "storage_p0 w = Some h" by auto
  define u where "u = format_storage_uri e (base_folder_p0 w)
                  (length (relative_file_paths (metadata_p0 w)))"
  define sid where "sid = storage_identifier (metadata_p0 w)"
  show ?thesis
  proof (cases "open_read_write e u sid")
    case False
    then have "calls_p0 (state_of (split_bagfile_p0 e w)) = calls_p0 w @ [OpenReadWrite u sid]"
      using h by (simp add: split_bagfile_p0_def log_p0_def Let_def u_def sid_def)
    then show ?thesis by simp
  next
    case True
    define w1 where "w1 = log_p0
        (map (\<lambda>topic. CreateTopic (topic_metadata (snd topic))) (topics_names_to_info_p0 w))
        ((log_p0 [OpenReadWrite u sid] w)\<lparr>storage_p0 := Some \<lparr>opened_uri = u, opened_id = sid\<rparr>\<rparr>)"
    have c1: "calls_p0 w1 = calls_p0 w @ OpenReadWrite u sid #
        map (\<lambda>topic. CreateTopic (topic_metadata (snd topic))) (topics_names_to_info_p0 w)"
      by (simp add: w1_def log_p0_def)
    show ?thesis
    proof (cases "mode (compression_options_p0 w) = FILE")
      case True
      with \<open>open_read_write e u sid\<close> h
      have s: "split_bagfile_p0 e w = compress_file_p0 e (get_relative_path e h) w1"
        by (simp add: split_bagfile_p0_def Let_def u_def sid_def w1_def log_p0_def)
      from compress_file_p0_calls [of e "get_relative_path e h" w1] obtain cs where
        "calls_p0 (state_of (compress_file_p0 e (get_relative_path e h) w1)) = calls_p0 w1 @ cs"
        "\<not> list_ex is_storage_write cs" by blast
      with s c1 show ?thesis by simp
    next
      case False
      with \<open>open_read_write e u sid\<close> h
      have "split_bagfile_p0 e w = Inr (push_path_p0 (get_relative_path e h) w1)"
        by (simp add: split_bagfile_p0_def Let_def u_def sid_def w1_def log_p0_def)
      with c1 show ?thesis by (simp add: push_path_p0_def)
    qed
  qed
qed

lemma compress_file_p0_config:
  "converter_p0 (state_of (compress_file_p0 e u w)) = converter_p0 w
   \<and> compression_options_p0 (state_of (compress_file_p0 e u w)) = compression_options_p0 w"
  by (cases "compress_uri e u")
     (simp_all add: compress_file_p0_def log_p0_def push_path_p0_def Let_def)

lemma split_bagfile_p0_config:
  "converter_p0 (state_of (split_bagfile_p0 e w)) = converter_p0 w
   \<and> compression_options_p0 (state_of (split_bagfile_p0 e w)) = compression_options_p0 w"
  by (cases "storage_p0 w")
     (simp_all add: split_bagfile_p0_def log_p0_def push_path_p0_def Let_def
        compress_file_p0_config)

lemma write_p0_calls:
  assumes "write_p0 e m w = Inr w'"
  shows "\<exists>mid. calls_p0 w' = calls_p0 w @ GetBagfileSize # mid @
             [StorageWrite
               (if mode (compression_options_p0 w) = MESSAGE
                then compress_bag_message_data e (if converter_p0 w then convert e m else m)
                else if converter_p0 w then convert e m else m)]
           \<and> \<not> list_ex is_storage_write mid
           \<and> list_ex is_rollover mid = should_split_bagfile_p0 e w"
proof -
  from assms have o: "storage_p0 w \<noteq> None"
    and r: "map_of (topics_names_to_info_p0 w) (topic_name m) \<noteq> None"
    by (auto simp: write_p0_def split: if_splits)
  define w1 where "w1 = log_p0 [GetBagfileSize]
     (w\<lparr>topics_names_to_info_p0 :=
          increment_count (topic_name m) (topics_names_to_info_p0 w)\<rparr>)"
  have c1: "calls_p0 w1 = calls_p0 w @ [GetBagfileSize]" and o1: "storage_p0 w1 \<noteq> None"
    and k1: "converter_p0 w1 = converter_p0 w"
            "compression_options_p0 w1 = compression_options_p0 w"
    using o by (simp_all add: w1_def log_p0_def)
  define r1 where "r1 = (if should_split_bagfile_p0 e w then split_bagfile_p0 e w1 else Inr w1)"
  define x where "x = (\<lambda>w2::writer_p0. if mode (compression_options_p0 w2) = MESSAGE
                then compress_bag_message_data e (if converter_p0 w2 then convert e m else m)
                else if converter_p0 w2 then convert e m else m)"
  have sp: "should_split_bagfile_p0 e (w\<lparr>topics_names_to_info_p0 :=
          increment_count (topic_name m) (topics_names_to_info_p0 w)\<rparr>) = should_split_bagfile_p0 e w"
    by (simp add: should_split_bagfile_p0_def)
  from assms o r sp obtain w2 where w2: "r1 = Inr w2"
    and fin: "calls_p0 w' = calls_p0 w2 @ [StorageWrite (x w2)]"
    by (auto simp: write_p0_def Let_def r1_def w1_def x_def log_p0_def
        split: if_splits sum.splits)
  have s2: "state_of r1 = w2" using w2 by simp
  have k2: "converter_p0 w2 = converter_p0 w"
           "compression_options_p0 w2 = compression_options_p0 w"
    using s2 k1 split_bagfile_p0_config [of e w1] by (auto simp: r1_def split: if_splits)
  then have xw: "x w2 = x w" by (simp add: x_def)
  have "\<exists>mid. calls_p0 w2 = calls_p0 w @ GetBagfileSize # mid
           \<and> \<not> list_ex is_storage_write mid
           \<and> list_ex is_rollover mid = should_split_bagfile_p0 e w"
  proof (cases "should_split_bagfile_p0 e w")
    case True
    with w2 have "state_of (split_bagfile_p0 e w1) = w2" by (simp add: r1_def)
    with split_bagfile_p0_calls [OF o1, of e] c1 True show ?thesis by auto
  next
    case False
    with w2 c1 show ?thesis by (auto simp: r1_def)
  qed
  with fin xw show ?thesis by (auto simp: x_def)
qed

lemma write_p0_calls_failure:
  assumes "write_p0 e m w = Inl (err, w')"
  shows "\<exists>cs. calls_p0 w' = calls_p0 w @ cs \<and> \<not> list_ex is_storage_write cs"
proof (cases "storage_p0 w = None \<or> map_of (topics_names_to_info_p0 w) (topic_name m) = None")
  case True
  with assms have "w' = w" by (auto simp: write_p0_def split: if_splits)
  then show ?thesis by simp
next
  case False
  define w1 where "w1 = log_p0 [GetBagfileSize]
     (w\<lparr>topics_names_to_info_p0 :=
          increment_count (topic_name m) (topics_names_to_info_p0 w)\<rparr>)"
  have c1: "calls_p0 w1 = calls_p0 w @ [GetBagfileSize]" and o1: "storage_p0 w1 \<noteq> None"
    using False by (simp_all add: w1_def log_p0_def)
  from assms False have "split_bagfile_p0 e w1 = Inl (err, w')"
    by (auto simp: write_p0_def Let_def w1_def log_p0_def split: if_splits sum.splits)
  then have "state_of (split_bagfile_p0 e w1) = w'" by simp
  with split_bagfile_p0_calls [OF o1, of e] c1 show ?thesis by auto
qed

lemma write_co_calls:
  assumes "write_co e m v = Inr v'"
  shows "\<exists>post. calls_co v' = calls_co v
               @ StorageWrite (if converter_co v then convert e m else m) # post
           \<and> \<not> list_ex is_storage_write post
           \<and> list_ex is_rollover post
               = should_split_database e
                   (log_co [StorageWrite (if converter_co v then convert e m else m)] v)"
  using assms
  by (auto simp: write_co_def Let_def log_co_def should_split_database_def split: if_splits)

text \<open>
  C3, as amended. In \<^verbatim>\<open>part_000\<close> a successful \<open>write\<close> first asks the storage for the
  size of the active file, then performs the rollover if the policy fires, and as its last
  call hands the storage one record: the message itself, converted if a converter is
  active and then compressed in per-message mode. Nothing else is written and no rollover
  follows the delegation; a \<open>write\<close> that fails hands nothing to the storage. In the
  writer of \<^verbatim>\<open>compression_options.cpp\<close> the order is the reverse: the message, converted
  if a converter is active, is handed to the storage first and once, and the size query
  and the split, if the policy fires, follow it within the same call.
\<close>

theorem write_split_order:
  "(write_p0 e m w = Inr w' \<longrightarrow>
      (\<exists>mid. calls_p0 w' = calls_p0 w @ GetBagfileSize # mid @
             [StorageWrite
               (if mode (compression_options_p0 w) = MESSAGE
                then compress_bag_message_data e (if converter_p0 w then convert e m else m)
                else if converter_p0 w then convert e m else m)]
         \<and> \<not> list_ex is_storage_write mid
         \<and> list_ex is_rollover mid = should_split_bagfile_p0 e w
         \<and> none_after is_storage_write is_rollover
              (drop (length (calls_p0 w)) (calls_p0 w'))))
   \<and> (write_p0 e' m' u = Inl (err, u') \<longrightarrow>
      (\<exists>cs. calls_p0 u' = calls_p0 u @ cs \<and> \<not> list_ex is_storage_write cs))
   \<and> (write_co e m v = Inr v' \<longrightarrow>
      (\<exists>post. calls_co v' = calls_co v
               @ StorageWrite (if converter_co v then convert e m else m) # post
         \<and> \<not> list_ex is_storage_write post
         \<and> list_ex is_rollover post
             = should_split_database e
                 (log_co [StorageWrite (if converter_co v then convert e m else m)] v)))"
proof (intro conjI impI)
  assume "write_p0 e m w = Inr w'"
  define x where "x = (if mode (compression_options_p0 w) = MESSAGE
                then compress_bag_message_data e (if converter_p0 w then convert e m else m)
                else if converter_p0 w then convert e m else m)"
  from write_p0_calls [OF \<open>write_p0 e m w = Inr w'\<close>] obtain mid where
    a: "calls_p0 w' = calls_p0 w @ GetBagfileSize # mid @ [StorageWrite x]"
       "\<not> list_ex is_storage_write mid"
       "list_ex is_rollover mid = should_split_bagfile_p0 e w"
    unfolding x_def by blast
  then have "\<not> list_ex is_storage_write (GetBagfileSize # mid)" by simp
  from none_after_last [OF this, of is_rollover "StorageWrite x"]
  have "none_after is_storage_write is_rollover (GetBagfileSize # mid @ [StorageWrite x])"
    by simp
  with a have "none_after is_storage_write is_rollover
              (drop (length (calls_p0 w)) (calls_p0 w'))"
    by simp
  with a show "\<exists>mid. calls_p0 w' = calls_p0 w @ GetBagfileSize # mid @
             [StorageWrite
               (if mode (compression_options_p0 w) = MESSAGE
                then compress_bag_message_data e (if converter_p0 w then convert e m else m)
                else if converter_p0 w then convert e m else m)]
         \<and> \<not> list_ex is_storage_write mid
         \<and> list_ex is_rollover mid = should_split_bagfile_p0 e w
         \<and> none_after is_storage_write is_rollover
              (drop (length (calls_p0 w)) (calls_p0 w'))"
    unfolding x_def by blast
next
  assume "write_p0 e' m' u = Inl (err, u')"
  from write_p0_calls_failure [OF this]
  show "\<exists>cs. calls_p0 u' = calls_p0 u @ cs \<and> \<not> list_ex is_storage_write cs" .
next
  assume "write_co e m v = Inr v'"
  from write_co_calls [OF this]
  show "\<exists>post. calls_co v' = calls_co v
               @ StorageWrite (if converter_co v then convert e m else m) # post
         \<and> \<not> list_ex is_storage_write post
         \<and> list_ex is_rollover post
             = should_split_database e
                 (log_co [StorageWrite (if converter_co v then convert e m else m)] v)" .
qed

theorem write_split_order_witness:
  "write_p0 (sample_env 102401 True) message_a
      (recording_p0 (sample_env 102401 True) no_compression)
     = Inr (state_of (write_p0 (sample_env 102401 True) message_a
         (recording_p0 (sample_env 102401 True) no_compression)))
   \<and> (\<exists>mid.
         calls_p0 (state_of (write_p0 (sample_env 102401 True) message_a
           (recording_p0 (sample_env 102401 True) no_compression)))
           = calls_p0 (recording_p0 (sample_env 102401 True) no_compression)
             @ GetBagfileSize # mid @
               [StorageWrite
                 (if mode (compression_options_p0
                       (recording_p0 (sample_env 102401 True) no_compression)) = MESSAGE
                  then compress_bag_message_data (sample_env 102401 True)
                         (if converter_p0 (recording_p0 (sample_env 102401 True) no_compression)
                          then convert (sample_env 102401 True) message_a else message_a)
                  else if converter_p0 (recording_p0 (sample_env 102401 True) no_compression)
                       then convert (sample_env 102401 True) message_a else message_a)]
         \<and> \<not> list_ex is_storage_write mid
         \<and> list_ex is_rollover mid
             = should_split_bagfile_p0 (sample_env 102401 True)
                 (recording_p0 (sample_env 102401 True) no_compression)
         \<and> none_after is_storage_write is_rollover
              (drop (length (calls_p0 (recording_p0 (sample_env 102401 True) no_compression)))
                 (calls_p0 (state_of (write_p0 (sample_env 102401 True) message_a
                    (recording_p0 (sample_env 102401 True) no_compression))))))
   \<and> write_p0 (sample_env 102401 False) message_a
        (recording_p0 (sample_env 102401 False) file_compression)
     = Inl (CompressionError, state_of (write_p0 (sample_env 102401 False) message_a
         (recording_p0 (sample_env 102401 False) file_compression)))
   \<and> (\<exists>cs.
         calls_p0 (state_of (write_p0 (sample_env 102401 False) message_a
           (recording_p0 (sample_env 102401 False) file_compression)))
           = calls_p0 (recording_p0 (sample_env 102401 False) file_compression) @ cs
         \<and> \<not> list_ex is_storage_write cs)
   \<and> write_co (sample_env 102401 True) message_a (opened_co 11 10)
     = Inr (state_of (write_co (sample_env 102401 True) message_a (opened_co 11 10)))
   \<and> (\<exists>post.
         calls_co (state_of (write_co (sample_env 102401 True) message_a (opened_co 11 10)))
           = calls_co (opened_co 11 10)
             @ StorageWrite (if converter_co (opened_co 11 10)
                             then convert (sample_env 102401 True) message_a else message_a)
               # post
         \<and> \<not> list_ex is_storage_write post
         \<and> list_ex is_rollover post
             = should_split_database (sample_env 102401 True)
                 (log_co [StorageWrite (if converter_co (opened_co 11 10)
                                        then convert (sample_env 102401 True) message_a
                                        else message_a)] (opened_co 11 10)))"
proof -
  have p: "write_p0 (sample_env 102401 True) message_a
      (recording_p0 (sample_env 102401 True) no_compression)
     = Inr (state_of (write_p0 (sample_env 102401 True) message_a
         (recording_p0 (sample_env 102401 True) no_compression)))"
    by (simp add: sample_env_def sample_storage_options_def same_format_def topic_a_def
        message_a_def recording_p0_def Writer_p0_def open_p0_def open2_p0_def
        init_metadata_p0_def log_p0_def format_storage_uri_def no_compression_def
        create_topic_p0_def write_p0_def should_split_bagfile_p0_def split_bagfile_p0_def
        push_path_p0_def umap_insert_def increment_count_def TopicInformation0_def
        BagMetadata0_def Let_def)
  have f: "write_p0 (sample_env 102401 False) message_a
        (recording_p0 (sample_env 102401 False) file_compression)
     = Inl (CompressionError, state_of (write_p0 (sample_env 102401 False) message_a
         (recording_p0 (sample_env 102401 False) file_compression)))"
    by (simp add: sample_env_def sample_storage_options_def same_format_def topic_a_def
        message_a_def recording_p0_def Writer_p0_def open_p0_def open2_p0_def
        init_metadata_p0_def log_p0_def format_storage_uri_def no_compression_def
        file_compression_def create_topic_p0_def write_p0_def should_split_bagfile_p0_def
        split_bagfile_p0_def compress_file_p0_def umap_insert_def increment_count_def
        TopicInformation0_def BagMetadata0_def Let_def)
  have c: "write_co (sample_env 102401 True) message_a (opened_co 11 10)
     = Inr (state_of (write_co (sample_env 102401 True) message_a (opened_co 11 10)))"
    by (simp add: sample_env_def sample_storage_options_def same_format_def message_a_def
        opened_co_def Writer_co_def open_co_def initialize_metadata_co_def log_co_def
        write_co_def should_split_database_def Let_def)
  from write_split_order [where e = "sample_env 102401 True" and m = message_a
      and w = "recording_p0 (sample_env 102401 True) no_compression"
      and w' = "state_of (write_p0 (sample_env 102401 True) message_a
                 (recording_p0 (sample_env 102401 True) no_compression))"
      and e' = "sample_env 102401 False" and m' = message_a
      and u = "recording_p0 (sample_env 102401 False) file_compression"
      and err = CompressionError
      and u' = "state_of (write_p0 (sample_env 102401 False) message_a
                 (recording_p0 (sample_env 102401 False) file_compression))"
      and v = "opened_co 11 10"
      and v' = "state_of (write_co (sample_env 102401 True) message_a (opened_co 11 10))"] p f c
  show ?thesis by blast
qed

text \<open>
  The claim as stated, that every \<open>write\<close> performs the rollover before it delegates the
  message, fails for the writer of \<^verbatim>\<open>compression_options.cpp\<close>: with bound 10 and a
  file of 11 bytes the split comes after the write.
\<close>

theorem write_split_order_counterexample:
  "storage_co (opened_co 11 10) \<noteq> None
   \<and> should_split_database (sample_env 11 True) (opened_co 11 10)
   \<and> error_of (write_co (sample_env 11 True) message_a (opened_co 11 10)) = None
   \<and> calls_co (state_of (write_co (sample_env 11 True) message_a (opened_co 11 10)))
       = calls_co (opened_co 11 10)
         @ [StorageWrite message_a, GetCurrentBagfileSize, GetMetadata, SplitDatabase]
   \<and> \<not> none_after is_storage_write is_rollover
          [StorageWrite message_a, GetCurrentBagfileSize, GetMetadata, SplitDatabase]"
  by (simp add: sample_env_def sample_storage_options_def same_format_def message_a_def
      opened_co_def Writer_co_def open_co_def initialize_metadata_co_def log_co_def
      write_co_def should_split_database_def Let_def)


subsection \<open>Compression failure at rollover\<close>

text \<open>
  In \<^verbatim>\<open>part_000\<close> the file is removed only after \<^verbatim>\<open>compress_uri\<close> has returned; when it
  throws, the rollover ends with that error and the file list is as before. In
  \<^verbatim>\<open>writer.cpp\<close> an unsuccessful compression adds the name of the file rolled over to.
\<close>

lemma compress_file_p0_failure:
  "compress_uri e u = Inl err \<Longrightarrow> compress_file_p0 e u w = Inl (err, log_p0 [CompressUri u] w)"
  by (simp add: compress_file_p0_def Let_def)

lemma compress_file_p0_success:
  "compress_uri e u = Inr c \<Longrightarrow>
   compress_file_p0 e u w = Inr (log_p0 [RemoveFile u] (push_path_p0 c (log_p0 [CompressUri u] w)))"
  by (simp add: compress_file_p0_def Let_def)

lemma split_bagfile_p0_compression_failure:
  assumes "storage_p0 w = Some h"
    and "mode (compression_options_p0 w) = FILE"
    and "open_read_write e
           (format_storage_uri e (base_folder_p0 w) (length (relative_file_paths (metadata_p0 w))))
           (storage_identifier (metadata_p0 w))"
    and "compress_uri e (get_relative_path e h) = Inl err"
  shows "error_of (split_bagfile_p0 e w) = Some err
     \<and> relative_file_paths (metadata_p0 (state_of (split_bagfile_p0 e w)))
         = relative_file_paths (metadata_p0 w)
     \<and> RemoveFile (get_relative_path e h)
         \<notin> set (drop (length (calls_p0 w)) (calls_p0 (state_of (split_bagfile_p0 e w))))"
  using assms
  by (auto simp: split_bagfile_p0_def compress_file_p0_def log_p0_def Let_def)

lemma split_bagfile_wr_compression_failure:
  assumes "open_read_write e (fst (next_bagfile_uri_wr e w)) (storage_id_wr w)"
    and "\<not> compression_success (compress_uri_state e (get_current_uri e (calls_wr w)))"
  shows "error_of (split_bagfile_wr e w) = None
     \<and> relative_file_paths_wr (state_of (split_bagfile_wr e w))
         = relative_file_paths_wr w @ [fst (next_bagfile_uri_wr e w)]"
  using assms
  by (simp add: split_bagfile_wr_def next_bagfile_uri_wr_def log_wr_def Let_def)


text \<open>
  C5. When compressing the file just closed fails, that file must stay and its
  uncompressed path must be the entry added to the file list. Neither writer does the
  second. In \<^verbatim>\<open>part_000\<close>, in whole-file mode with the current file \<open>bag/bag\<close> and a
  compressor that fails, the write that rolls over and the close both end with the
  compressor's error and leave the file list empty. In \<^verbatim>\<open>writer.cpp\<close> the write that rolls
  over from \<open>bag/bag\<close> succeeds and lists the new file \<open>bag/bag_1\<close> instead.
\<close>

theorem compression_failure_loses_closed_file:
  "storage_p0 (recording_p0 (sample_env 102401 False) file_compression)
     = Some \<lparr>opened_uri = ''bag/bag'', opened_id = ''sqlite3''\<rparr>
   \<and> get_relative_path (sample_env 102401 False)
        \<lparr>opened_uri = ''bag/bag'', opened_id = ''sqlite3''\<rparr> = ''bag/bag''
   \<and> compress_uri (sample_env 102401 False) ''bag/bag'' = Inl CompressionError
   \<and> error_of (write_p0 (sample_env 102401 False) message_a
        (recording_p0 (sample_env 102401 False) file_compression)) = Some CompressionError
   \<and> relative_file_paths (metadata_p0 (state_of (write_p0 (sample_env 102401 False) message_a
        (recording_p0 (sample_env 102401 False) file_compression)))) = []
   \<and> error_of (close_p0 (sample_env 102401 False)
        (recording_p0 (sample_env 102401 False) file_compression)) = Some CompressionError
   \<and> relative_file_paths (metadata_p0 (state_of (close_p0 (sample_env 102401 False)
        (recording_p0 (sample_env 102401 False) file_compression)))) = []
   \<and> get_current_uri (sample_env 102401 False) (calls_wr (recording_wr (sample_env 102401 False)))
        = ''bag/bag''
   \<and> \<not> compression_success (compress_uri_state (sample_env 102401 False) ''bag/bag'')
   \<and> error_of (write_wr (sample_env 102401 False) message_a
        (recording_wr (sample_env 102401 False))) = None
   \<and> relative_file_paths_wr (state_of (write_wr (sample_env 102401 False) message_a
        (recording_wr (sample_env 102401 False)))) = [''bag/bag_1'']"
  by (simp add: sample_env_def sample_storage_options_def same_format_def topic_a_def message_a_def
      file_compression_def no_compression_def recording_p0_def recording_wr_def
      Writer_p0_def open_p0_def open2_p0_def init_metadata_p0_def log_p0_def
      format_storage_uri_def create_topic_p0_def write_p0_def should_split_bagfile_p0_def
      split_bagfile_p0_def compress_file_p0_def push_path_p0_def close_p0_def
      Writer_wr_def open_wr_def next_bagfile_uri_wr_def log_wr_def INT64_MAX_def
      INT64_MIN_def create_topic_wr_def write_wr_def should_split_bagfile_wr_def
      split_bagfile_wr_def umap_insert_def umap_index_def increment_count_def
      TopicInformation0_def BagMetadata0_def Let_def)

subsection \<open>Merging metadata\<close>

lemma get_topics_no_duplicates_filter:
  "get_topics_no_duplicates e prev new = filter (\<lambda>t. \<not> topic_already_exists e t prev) new"
  by (induction new) simp_all

text \<open>
  C7, as amended. \<^verbatim>\<open>aggregate_metadata_\<close> replaces the file list of the aggregate by the
  file list of the per-file metadata; it is the topic list to which only the entries not
  already present are appended.
\<close>

theorem aggregate_metadata_file_list:
  "relative_file_paths (aggregate_metadata_co e M m) = relative_file_paths m
   \<and> topics_with_message_count (aggregate_metadata_co e M m)
       = topics_with_message_count M
         @ filter (\<lambda>t. \<not> topic_already_exists e t (topics_with_message_count M))
             (topics_with_message_count m)"
  by (simp add: aggregate_metadata_co_def Let_def get_topics_no_duplicates_filter)

text \<open>
  The claim as stated fails: merging a report that lists \<open>bag_1\<close> twice into an aggregate
  that lists \<open>bag_0\<close> gives a list with a duplicate and without \<open>bag_0\<close>, which is not
  the list the spec describes.
\<close>

theorem aggregate_metadata_file_list_counterexample:
  "relative_file_paths
     (aggregate_metadata_co (sample_env 0 True)
        (BagMetadata0\<lparr>relative_file_paths := [''bag_0'']\<rparr>)
        (BagMetadata0\<lparr>relative_file_paths := [''bag_1'', ''bag_1'']\<rparr>))
     = [''bag_1'', ''bag_1'']
   \<and> relative_file_paths
     (aggregate_metadata_co (sample_env 0 True)
        (BagMetadata0\<lparr>relative_file_paths := [''bag_0'']\<rparr>)
        (BagMetadata0\<lparr>relative_file_paths := [''bag_1'', ''bag_1'']\<rparr>))
     \<noteq> spec_merge_file_list [''bag_0''] [''bag_1'', ''bag_1'']
   \<and> ''bag_0'' \<notin> set (relative_file_paths
     (aggregate_metadata_co (sample_env 0 True)
        (BagMetadata0\<lparr>relative_file_paths := [''bag_0'']\<rparr>)
        (BagMetadata0\<lparr>relative_file_paths := [''bag_1'', ''bag_1'']\<rparr>)))
   \<and> \<not> distinct (relative_file_paths
     (aggregate_metadata_co (sample_env 0 True)
        (BagMetadata0\<lparr>relative_file_paths := [''bag_0'']\<rparr>)
        (BagMetadata0\<lparr>relative_file_paths := [''bag_1'', ''bag_1'']\<rparr>)))"
  by (simp add: aggregate_metadata_co_def Let_def BagMetadata0_def spec_merge_file_list_def)


subsection \<open>Parsing and printing the compression mode\<close>

text \<open>
  C9. \<open>compression_mode_from_string\<close> maps the empty string and \<open>NONE\<close> to mode NONE,
  \<open>FILE\<close> to FILE and \<open>MESSAGE\<close> to MESSAGE, logging nothing; every other string
  yields NONE as well, after one error line has been logged, and the function returns
  a mode rather than failing.
\<close>

theorem compression_mode_from_string_cases:
  "compression_mode_from_string [] = (NONE, [])
   \<and> compression_mode_from_string ''NONE'' = (NONE, [])
   \<and> compression_mode_from_string ''FILE'' = (FILE, [])
   \<and> compression_mode_from_string ''MESSAGE'' = (MESSAGE, [])
   \<and> (s \<notin> {[], ''NONE'', ''FILE'', ''MESSAGE''} \<longrightarrow>
        compression_mode_from_string s = (NONE, [not_supported_msg s]))"
  by (simp add: compression_mode_from_string_def COMPRESSION_MODE_NONE_STR_def
      COMPRESSION_MODE_FILE_STR_def COMPRESSION_MODE_MESSAGE_STR_def)

theorem compression_mode_from_string_cases_witness:
  "''ZSTD'' \<notin> {[], ''NONE'', ''FILE'', ''MESSAGE''}
   \<and> compression_mode_from_string ''ZSTD'' = (NONE, [not_supported_msg ''ZSTD''])"
  using compression_mode_from_string_cases [of "''ZSTD''"] by simp

text \<open>
  C10. Printing a compression mode and parsing the result gives the mode back, for each
  of NONE, FILE and MESSAGE, and logs no error.
\<close>

theorem compression_mode_roundtrip:
  "compression_mode_from_string (compression_mode_to_string m) = (m, [])"
  by (cases m)
     (simp_all add: compression_mode_from_string_def COMPRESSION_MODE_NONE_STR_def
      COMPRESSION_MODE_FILE_STR_def COMPRESSION_MODE_MESSAGE_STR_def)

end
